theory Spec2Isabelle
  imports Complex_Main "HOL-Library.AList"
begin

section \<open>Numbers and strings of the runtime\<close>

text \<open>
  Update ids, timestamps and backoff delays are JavaScript numbers that only ever hold
  integers far below \<open>2^53\<close>; they are modelled as \<open>int\<close>. Prices and quantities travel
  as decimal strings and are read with \<open>parseFloat\<close>; the parsed value is a \<open>rat\<close>.

  \<open>parseFloat\<close> is the builtin restricted to the literals the exchange sends: an optional
  minus sign, digits, and an optional fraction. A string with no leading numeral is \<open>NaN\<close>
  for the builtin; \<open>NaN\<close>, infinities and exponents are outside this model (such a string
  reads as the value of its digit prefix, \<open>0\<close> when there is none). No general theorem
  below depends on what \<open>parseFloat\<close> returns.
\<close>

definition isDigit :: "char \<Rightarrow> bool" where
  "isDigit c = (48 \<le> (of_char c :: nat) \<and> (of_char c :: nat) \<le> 57)"

fun digitsValue :: "nat \<Rightarrow> string \<Rightarrow> nat" where
  "digitsValue acc [] = acc"
| "digitsValue acc (c # cs) = digitsValue (10 * acc + ((of_char c :: nat) - 48)) cs"

definition parseFloat :: "string \<Rightarrow> rat" where
  "parseFloat s =
     (let neg = (case s of [] \<Rightarrow> False | c # _ \<Rightarrow> c = CHR ''-'');
          s1 = (if neg then tl s else s);
          ip = takeWhile isDigit s1;
          rest = dropWhile isDigit s1;
          fp = (case rest of [] \<Rightarrow> []
                | c # r \<Rightarrow> if c = CHR ''.'' then takeWhile isDigit r else []);
          v = of_nat (digitsValue 0 ip) + of_nat (digitsValue 0 fp) / 10 ^ length fp
      in if neg then - v else v)"

text \<open>\<open>String.prototype.toUpperCase\<close> on ASCII letters.\<close>

definition toUpperCase :: "string \<Rightarrow> string" where
  "toUpperCase s =
     map (\<lambda>c. if 97 \<le> (of_char c :: nat) \<and> (of_char c :: nat) \<le> 122
              then char_of ((of_char c :: nat) - 32) else c) s"


section \<open>Data model of the order-book engine (OrderBookEngine)\<close>

text \<open>
  A price level on the wire is a pair of strings \<open>[price, quantity]\<close>. A book side is a
  JavaScript \<open>Map<string, number>\<close>: an association list in insertion order, where
  \<open>Map.set\<close> overwrites an existing key in place and appends a new one
  (\<open>AList.update\<close>), and \<open>Map.delete\<close> removes the key (\<open>AList.delete\<close>).
\<close>

type_synonym level = "string \<times> string"
type_synonym book = "(string \<times> rat) list"

text \<open>
  A depth event is the payload of a frame of a depth stream (\<open>DepthEvent\<close> of types.ts):
  the update ids \<open>U\<close> and \<open>u\<close> are numbers; the arrays \<open>b\<close> and \<open>a\<close> may be absent
  (\<open>None\<close>), which the seeding guard of \<open>processEvent\<close> and \<open>applyUpdate\<close> test for.
\<close>

record event =
  ev_U :: int
  ev_u :: int
  ev_b :: "level list option"
  ev_a :: "level list option"

text \<open>
  The engine object. \<open>retryTimeoutId\<close> is \<open>Some d\<close> while a retry timer set with delay
  \<open>d\<close> is pending and \<open>None\<close> for JavaScript's \<open>null\<close>. The diagnostic \<open>instanceId\<close> and
  the throttle map of the debug log are not part of the model.
\<close>

record engine =
  symbol :: string
  bids :: book
  asks :: book
  lastUpdateId :: int
  isSynced :: bool
  buffer :: "event list"
  resyncInFlight :: bool
  lastResyncAt :: int
  needsResync :: bool
  degraded :: bool
  snapshotBackoffMs :: int
  retryTimeoutId :: "int option"

definition MAX_BUFFER_SIZE :: nat where "MAX_BUFFER_SIZE = 2000"
definition maxBackoffMs :: int where "maxBackoffMs = 30000"
definition minBackoffMs :: int where "minBackoffMs = 2000"

text \<open>The constructor.\<close>

definition newEngine :: "string \<Rightarrow> engine" where
  "newEngine name =
     \<lparr> symbol = name, bids = [], asks = [], lastUpdateId = 0, isSynced = False,
       buffer = [], resyncInFlight = False, lastResyncAt = 0, needsResync = True,
       degraded = False, snapshotBackoffMs = minBackoffMs, retryTimeoutId = None \<rparr>"

definition getIsSynced :: "engine \<Rightarrow> bool" where "getIsSynced st = isSynced st"
definition getResyncInFlight :: "engine \<Rightarrow> bool" where "getResyncInFlight st = resyncInFlight st"
definition getNeedsResync :: "engine \<Rightarrow> bool" where "getNeedsResync st = needsResync st"
definition getBackoffMs :: "engine \<Rightarrow> int" where "getBackoffMs st = snapshotBackoffMs st"


section \<open>Applying levels to a book side\<close>

text \<open>The loop of \<open>applyUpdate\<close>: a parsed quantity of zero deletes the price, any other
  value is stored under the price string.\<close>

fun applyLevels :: "level list \<Rightarrow> book \<Rightarrow> book" where
  "applyLevels [] book = book"
| "applyLevels ((p, q) # rest) book =
     (let qty = parseFloat q
      in if qty = 0 then applyLevels rest (AList.delete p book)
         else applyLevels rest (AList.update p qty book))"

definition applyUpdate :: "level list option \<Rightarrow> book \<Rightarrow> book" where
  "applyUpdate updates book =
     (case updates of None \<Rightarrow> book | Some ls \<Rightarrow> applyLevels ls book)"

text \<open>Loading one side of a snapshot in \<open>initSnapshot\<close>: \<open>forEach\<close> with \<open>Map.set\<close> on a
  cleared map, with no test of the quantity.\<close>

definition loadLevels :: "level list \<Rightarrow> book" where
  "loadLevels ls = foldl (\<lambda>m (p, q). AList.update p (parseFloat q) m) [] ls"


section \<open>Buffering and processing diffs\<close>

text \<open>\<open>addToBuffer\<close>: the guard on the types of \<open>u\<close> and \<open>U\<close> holds for every \<open>event\<close>;
  at \<open>MAX_BUFFER_SIZE\<close> the oldest \<open>floor(MAX_BUFFER_SIZE * 0.1)\<close> events are spliced off.\<close>

definition dropCount :: nat where "dropCount = MAX_BUFFER_SIZE div 10"

definition addToBuffer :: "event \<Rightarrow> engine \<Rightarrow> engine" where
  "addToBuffer ev st =
     (let buf = (if length (buffer st) \<ge> MAX_BUFFER_SIZE
                 then drop dropCount (buffer st) else buffer st)
      in st\<lparr>buffer := buf @ [ev]\<rparr>)"

definition applyEvent :: "event \<Rightarrow> engine \<Rightarrow> engine" where
  "applyEvent ev st =
     st\<lparr>bids := applyUpdate (ev_b ev) (bids st),
        asks := applyUpdate (ev_a ev) (asks st),
        lastUpdateId := ev_u ev\<rparr>"

definition processEvent :: "event \<Rightarrow> engine \<Rightarrow> engine" where
  "processEvent ev st0 =
     (let st = (if isSynced st0 \<and> \<not> resyncInFlight st0 \<and> buffer st0 \<noteq> []
                then st0\<lparr>buffer := []\<rparr> else st0)
      in if resyncInFlight st then addToBuffer ev st
         else if \<not> isSynced st then
           (if \<not> degraded st \<and> ev_b ev \<noteq> None \<and> ev_a ev \<noteq> None
            then st\<lparr>lastUpdateId := ev_u ev,
                    bids := applyUpdate (ev_b ev) (bids st),
                    asks := applyUpdate (ev_a ev) (asks st),
                    degraded := True, isSynced := True, needsResync := True\<rparr>
            else (addToBuffer ev st)\<lparr>needsResync := True\<rparr>)
         else if ev_u ev \<le> lastUpdateId st then st
         else if ev_U ev > lastUpdateId st + 1
           then (addToBuffer ev st)\<lparr>needsResync := True\<rparr>
         else applyEvent ev st)"


section \<open>Replaying the buffer after a snapshot\<close>

text \<open>The first loop of \<open>replayBuffer\<close>: the index of the first event, in the sorted
  buffer, that is newer than the snapshot and straddles \<open>lastUpdateId + 1\<close>.\<close>

fun findStart :: "int \<Rightarrow> event list \<Rightarrow> nat \<Rightarrow> nat option" where
  "findStart l [] i = None"
| "findStart l (ev # evs) i =
     (if ev_u ev \<le> l then findStart l evs (Suc i)
      else if ev_U ev \<le> l + 1 \<and> ev_u ev \<ge> l + 1 then Some i
      else findStart l evs (Suc i))"

text \<open>The second loop, from \<open>startIdx\<close> on: a gap clears the buffer and returns false; an
  event that continues the current state is applied; any other event is passed over.\<close>

fun replayLoop :: "event list \<Rightarrow> engine \<Rightarrow> bool \<times> engine" where
  "replayLoop [] st = (True, st\<lparr>buffer := []\<rparr>)"
| "replayLoop (ev # evs) st =
     (if ev_U ev > lastUpdateId st + 1 then (False, st\<lparr>buffer := []\<rparr>)
      else if ev_u ev > lastUpdateId st then replayLoop evs (applyEvent ev st)
      else replayLoop evs st)"

text \<open>\<open>Array.prototype.sort\<close> is stable, as is \<open>sort_key\<close>.\<close>

definition replayBuffer :: "engine \<Rightarrow> bool \<times> engine" where
  "replayBuffer st =
     (if buffer st = [] then (True, st)
      else let st1 = st\<lparr>buffer := sort_key ev_u (buffer st)\<rparr>
           in case findStart (lastUpdateId st1) (buffer st1) 0 of
                None \<Rightarrow> (False, st1\<lparr>buffer := []\<rparr>)
              | Some startIdx \<Rightarrow> replayLoop (drop startIdx (buffer st1)) st1)"


section \<open>Snapshots\<close>

text \<open>
  What \<open>fetch\<close> and \<open>response.json()\<close> can produce: the fetch throws, or a response
  with a status arrives whose body does not parse, is \<open>null\<close>, or is an object in which
  \<open>lastUpdateId\<close>, \<open>bids\<close> and \<open>asks\<close> may each be missing (\<open>None\<close>; a \<open>bids\<close> or
  \<open>asks\<close> that is not an array counts as missing).
\<close>

record payload =
  p_lastUpdateId :: "int option"
  p_bids :: "level list option"
  p_asks :: "level list option"

datatype body = NotJson | JsonNull | JsonObj payload

datatype fetch_outcome = NetworkError | Response nat body

definition response_ok :: "nat \<Rightarrow> bool" where
  "response_ok status = (200 \<le> status \<and> status \<le> 299)"

text \<open>The test \<open>!data || !data.lastUpdateId || !Array.isArray(data.bids) ||
  !Array.isArray(data.asks)\<close>, negated: a \<open>lastUpdateId\<close> of \<open>0\<close> is falsy.\<close>

fun validData :: "body \<Rightarrow> (int \<times> level list \<times> level list) option" where
  "validData NotJson = None"
| "validData JsonNull = None"
| "validData (JsonObj d) =
     (case (p_lastUpdateId d, p_bids d, p_asks d) of
        (Some l, Some bs, Some as) \<Rightarrow> if l = 0 then None else Some (l, bs, as)
      | _ \<Rightarrow> None)"

definition scheduleRetry :: "engine \<Rightarrow> engine" where
  "scheduleRetry st =
     (if retryTimeoutId st \<noteq> None then st
      else st\<lparr>retryTimeoutId := Some (snapshotBackoffMs st)\<rparr>)"

definition increaseBackoff :: "engine \<Rightarrow> engine" where
  "increaseBackoff st =
     st\<lparr>snapshotBackoffMs := min (snapshotBackoffMs st * 2) maxBackoffMs\<rparr>"

text \<open>
  \<open>initSnapshot\<close> is asynchronous: it runs up to the \<open>await fetch\<close>, other callbacks
  (\<open>processEvent\<close> among them) run while the request is in flight, and it resumes with
  the outcome. \<open>initSnapshot_begin\<close> is the part before the \<open>await\<close>;
  \<open>initSnapshot_resume\<close> is the rest, ending in the \<open>finally\<close> block.
\<close>

definition initSnapshot_begin :: "int \<Rightarrow> engine \<Rightarrow> engine" where
  "initSnapshot_begin now st =
     (if resyncInFlight st then st
      else st\<lparr>resyncInFlight := True, lastResyncAt := now\<rparr>)"

definition commitSnapshot :: "int \<Rightarrow> level list \<Rightarrow> level list \<Rightarrow> engine \<Rightarrow> engine" where
  "commitSnapshot l bs as st =
     st\<lparr>lastUpdateId := l, bids := loadLevels bs, asks := loadLevels as\<rparr>"

definition initSnapshot_resume :: "fetch_outcome \<Rightarrow> engine \<Rightarrow> engine" where
  "initSnapshot_resume outcome st =
     (let st' =
        (case outcome of
           NetworkError \<Rightarrow> scheduleRetry ((increaseBackoff st)\<lparr>needsResync := True\<rparr>)
         | Response status bdy \<Rightarrow>
             if \<not> response_ok status then
               (if status = 429 \<or> status = 418 then scheduleRetry (increaseBackoff st)
                else scheduleRetry (increaseBackoff st))
             else if bdy = NotJson then scheduleRetry (increaseBackoff st)
             else (case validData bdy of
                     None \<Rightarrow> scheduleRetry (increaseBackoff st)
                   | Some (l, bs, as) \<Rightarrow>
                       (case replayBuffer (commitSnapshot l bs as st) of
                          (True, st2) \<Rightarrow>
                            st2\<lparr>isSynced := True, needsResync := False,
                                snapshotBackoffMs := minBackoffMs, degraded := False\<rparr>
                        | (False, st2) \<Rightarrow>
                            scheduleRetry (st2\<lparr>isSynced := False, needsResync := True\<rparr>))))
      in st'\<lparr>resyncInFlight := False\<rparr>)"

text \<open>The callback of the retry timer, and \<open>destroy\<close>.\<close>

definition retryTimerFires :: "int \<Rightarrow> engine \<Rightarrow> engine" where
  "retryTimerFires now st =
     (let st1 = st\<lparr>retryTimeoutId := None\<rparr>
      in if \<not> resyncInFlight st1 then initSnapshot_begin now st1 else st1)"

definition destroy :: "engine \<Rightarrow> engine" where
  "destroy st = st\<lparr>retryTimeoutId := None\<rparr>"


section \<open>Reading the book (sortBook, getBook) and the validity gate of the hook\<close>

record OrderBookLevel =
  lvl_price :: rat
  lvl_size :: rat
  lvl_total :: rat

text \<open>The loop of \<open>sortBook\<close> over the sorted keys: it stops at \<open>limit\<close> levels, reads a
  missing size as \<open>0\<close> and keeps only positive sizes, accumulating the total.\<close>

fun sortBook_loop :: "book \<Rightarrow> int \<Rightarrow> string list \<Rightarrow> rat \<Rightarrow> OrderBookLevel list
    \<Rightarrow> OrderBookLevel list" where
  "sortBook_loop book limit [] cumulative result = result"
| "sortBook_loop book limit (key # keys) cumulative result =
     (if int (length result) \<ge> limit then result
      else let sz = (case map_of book key of None \<Rightarrow> 0 | Some v \<Rightarrow> v)
           in if sz > 0
              then sortBook_loop book limit keys (cumulative + sz)
                     (result @ [\<lparr>lvl_price = parseFloat key, lvl_size = sz,
                                 lvl_total = cumulative + sz\<rparr>])
              else sortBook_loop book limit keys cumulative result)"

text \<open>The keys are sorted (stably) by parsed price: ascending for asks, descending for
  bids.\<close>

definition sortBook :: "book \<Rightarrow> bool \<Rightarrow> int \<Rightarrow> OrderBookLevel list" where
  "sortBook book isAsk limit =
     (let sortedKeys = (if isAsk then sort_key parseFloat (map fst book)
                        else sort_key (\<lambda>k. - parseFloat k) (map fst book))
      in sortBook_loop book limit sortedKeys 0 [])"

definition getBook :: "int \<Rightarrow> engine \<Rightarrow> OrderBookLevel list \<times> OrderBookLevel list" where
  "getBook depth st = (sortBook (bids st) False depth, sortBook (asks st) True depth)"

text \<open>\<open>bids[0]?.price || 0\<close>.\<close>

definition bestPrice :: "OrderBookLevel list \<Rightarrow> rat" where
  "bestPrice ls = (case ls of [] \<Rightarrow> 0 | l # _ \<Rightarrow> lvl_price l)"

text \<open>The book validity gate computed by the update loop of \<open>useBinanceSocket\<close> from
  \<open>engine.getBook(20)\<close>.\<close>

definition bookIsValid :: "engine \<Rightarrow> bool" where
  "bookIsValid st =
     (let (bs, as) = getBook 20 st;
          bestBid = bestPrice bs;
          bestAsk = bestPrice as
      in getIsSynced st \<and> \<not> getResyncInFlight st \<and> length bs > 0 \<and> length as > 0
         \<and> bestBid > 0 \<and> bestAsk > 0 \<and> bestBid < bestAsk)"


section \<open>Histories of one engine\<close>

text \<open>
  What can happen to an engine, one callback at a time: a diff arrives, \<open>initSnapshot\<close> is
  called, the pending fetch of a running \<open>initSnapshot\<close> completes with some outcome,
  the retry timer fires, or the engine is destroyed. A fetch can only complete while one is
  in flight, and the timer can only fire while it is pending.
\<close>

datatype action =
    Diff event
  | InitSnapshot int
  | FetchDone fetch_outcome
  | RetryTimer int
  | Destroy

fun step :: "action \<Rightarrow> engine \<Rightarrow> engine" where
  "step (Diff ev) st = processEvent ev st"
| "step (InitSnapshot now) st = initSnapshot_begin now st"
| "step (FetchDone outcome) st =
     (if resyncInFlight st then initSnapshot_resume outcome st else st)"
| "step (RetryTimer now) st =
     (if retryTimeoutId st \<noteq> None then retryTimerFires now st else st)"
| "step Destroy st = destroy st"

fun run :: "action list \<Rightarrow> engine \<Rightarrow> engine" where
  "run [] st = st"
| "run (x # xs) st = run xs (step x st)"

text \<open>A history in which no snapshot is started while \<open>needsResync\<close> is false.\<close>

definition startsFetch :: "action \<Rightarrow> engine \<Rightarrow> bool" where
  "startsFetch x st = (\<not> resyncInFlight st \<and> resyncInFlight (step x st))"

fun startsOnlyWhenNeeded :: "action list \<Rightarrow> engine \<Rightarrow> bool" where
  "startsOnlyWhenNeeded [] st = True"
| "startsOnlyWhenNeeded (x # xs) st =
     ((startsFetch x st \<longrightarrow> needsResync st) \<and> startsOnlyWhenNeeded xs (step x st))"


section \<open>The proxy server: depth cache, rate-limit records and the snapshot fetcher\<close>

record RateLimitState =
  lastRequest :: int
  backoffMs :: int

record DepthCache =
  dc_lastUpdateId :: int
  dc_bids :: "level list"
  dc_asks :: "level list"
  cachedAt :: int

datatype ready_state = CONNECTING | OPEN | CLOSING | CLOSED

text \<open>A client socket: its identity and its \<open>readyState\<close>.\<close>

record WebSocket =
  ws_id :: nat
  readyState :: ready_state

text \<open>The module-level state: the two caches (\<open>Map\<close>s keyed by symbol), the set of
  clients in insertion order, and the subscribed symbols of each client.\<close>

record server =
  depthCache :: "string \<rightharpoonup> DepthCache"
  rateLimitState :: "string \<rightharpoonup> RateLimitState"
  wsClients :: "WebSocket list"
  clientSymbols :: "nat \<rightharpoonup> string set"

definition MIN_BACKOFF_MS :: int where "MIN_BACKOFF_MS = 2000"
definition MAX_BACKOFF_MS :: int where "MAX_BACKOFF_MS = 30000"
definition RATE_LIMIT_INTERVAL_MS :: int where "RATE_LIMIT_INTERVAL_MS = 500"
definition CACHE_TTL_MS :: int where "CACHE_TTL_MS = 5000"

definition initialServer :: server where
  "initialServer =
     \<lparr> depthCache = Map.empty, rateLimitState = Map.empty, wsClients = [],
       clientSymbols = Map.empty \<rparr>"

text \<open>\<open>rateLimitState.get(symbol) || { lastRequest: 0, backoffMs: MIN_BACKOFF_MS }\<close>.\<close>

definition rateLimitOrDefault :: "server \<Rightarrow> string \<Rightarrow> RateLimitState" where
  "rateLimitOrDefault srv sy =
     (case rateLimitState srv sy of
        None \<Rightarrow> \<lparr>lastRequest = 0, backoffMs = MIN_BACKOFF_MS\<rparr>
      | Some r \<Rightarrow> r)"

text \<open>
  \<open>fetchBinanceDepth\<close>, given the outcome of the request and the clock read on success.
  A body that does not parse makes \<open>response.json()\<close> throw into the \<open>catch\<close> block,
  which returns \<open>null\<close> like the test of the data structure does. The \<open>limit\<close> only goes
  into the URL.
\<close>

definition fetchBinanceDepth ::
    "string \<Rightarrow> int \<Rightarrow> fetch_outcome \<Rightarrow> int \<Rightarrow> server \<Rightarrow> DepthCache option \<times> server" where
  "fetchBinanceDepth sy limit outcome now srv =
     (case outcome of
        NetworkError \<Rightarrow> (None, srv)
      | Response status bdy \<Rightarrow>
          if \<not> response_ok status then
            (if status = 429 \<or> status = 418 then
               (let state = rateLimitOrDefault srv sy;
                    state' = state\<lparr>backoffMs := min (backoffMs state * 2) MAX_BACKOFF_MS\<rparr>
                in (None, srv\<lparr>rateLimitState := (rateLimitState srv)(sy \<mapsto> state')\<rparr>))
             else (None, srv))
          else (case validData bdy of
                  None \<Rightarrow> (None, srv)
                | Some (l, bs, as) \<Rightarrow>
                    (let state = rateLimitOrDefault srv sy;
                         state' = state\<lparr>backoffMs := MIN_BACKOFF_MS, lastRequest := now\<rparr>;
                         cached = \<lparr>dc_lastUpdateId = l, dc_bids = bs, dc_asks = as,
                                   cachedAt = now\<rparr>
                     in (Some cached,
                         srv\<lparr>rateLimitState := (rateLimitState srv)(sy \<mapsto> state'),
                             depthCache := (depthCache srv)(sy \<mapsto> cached)\<rparr>))))"


section \<open>The REST endpoint GET /api/depth/:symbol\<close>

record depth_json =
  r_lastUpdateId :: int
  r_bids :: "level list"
  r_asks :: "level list"
  r_cachedAt :: int
  r_source :: string

text \<open>A 200 response with the depth, or the 503 with the symbol and \<open>retryAfter\<close>.\<close>

datatype http_response = Json200 depth_json | Json503 string int

text \<open>\<open>Math.min(parseInt(req.query.limit) || 1000, 1000)\<close>, where the argument is what
  \<open>parseInt\<close> returned (\<open>None\<close> for \<open>NaN\<close>): \<open>NaN\<close> and \<open>0\<close> are falsy.\<close>

definition requestLimit :: "int option \<Rightarrow> int" where
  "requestLimit parsed =
     min (case parsed of None \<Rightarrow> 1000 | Some n \<Rightarrow> if n = 0 then 1000 else n) 1000"

text \<open>\<open>xs.slice(0, end)\<close>: a negative \<open>end\<close> counts from the end of the array.\<close>

definition slice0 :: "int \<Rightarrow> 'a list \<Rightarrow> 'a list" where
  "slice0 e xs = (if e \<ge> 0 then take (nat e) xs else take (length xs - nat (- e)) xs)"

definition depthBody :: "DepthCache \<Rightarrow> int \<Rightarrow> string \<Rightarrow> depth_json" where
  "depthBody c limit src =
     \<lparr> r_lastUpdateId = dc_lastUpdateId c, r_bids = slice0 limit (dc_bids c),
       r_asks = slice0 limit (dc_asks c), r_cachedAt = cachedAt c, r_source = src \<rparr>"

text \<open>
  The handler, given the raw path parameter, the parsed \<open>limit\<close>, the clock, and the
  outcome and clock of the upstream request it may make. The \<open>state\<close> it read at the
  start is the object stored in the map when the symbol had a record (so the 503 reports
  the backoff as the fetch left it) and a fresh default object otherwise.
\<close>

definition depthHandler ::
    "string \<Rightarrow> int option \<Rightarrow> int \<Rightarrow> fetch_outcome \<Rightarrow> int \<Rightarrow> server
      \<Rightarrow> http_response \<times> server" where
  "depthHandler rawSymbol parsedLimit now outcome fetchNow srv =
     (let sy = toUpperCase rawSymbol;
          limit = requestLimit parsedLimit;
          state = rateLimitOrDefault srv sy;
          timeSinceLastRequest = now - lastRequest state;
          cached = depthCache srv sy;
          throttledHit =
            (if timeSinceLastRequest < RATE_LIMIT_INTERVAL_MS
                \<or> timeSinceLastRequest < backoffMs state
             then (case cached of
                     None \<Rightarrow> None
                   | Some c \<Rightarrow> if now - cachedAt c < CACHE_TTL_MS * 2 then Some c else None)
             else None)
      in case throttledHit of
           Some c \<Rightarrow> (Json200 (depthBody c limit ''cache''), srv)
         | None \<Rightarrow>
             (case fetchBinanceDepth sy limit outcome fetchNow srv of
                (Some freshData, srv') \<Rightarrow> (Json200 (depthBody freshData limit ''binance''), srv')
              | (None, srv') \<Rightarrow>
                  (case cached of
                     Some c \<Rightarrow> (Json200 (depthBody c limit ''cache''), srv')
                   | None \<Rightarrow>
                       (Json503 sy
                          (case rateLimitState srv sy of
                             None \<Rightarrow> MIN_BACKOFF_MS
                           | Some _ \<Rightarrow> backoffMs (rateLimitOrDefault srv' sy)),
                        srv'))))"

text \<open>The first test of the handler on its own: the cached snapshot that is served
  without a fetch, when the request comes too soon after the last upstream request (or
  within the backoff) and the cache is younger than twice the TTL.\<close>

definition throttledCache :: "string \<Rightarrow> int \<Rightarrow> server \<Rightarrow> DepthCache option" where
  "throttledCache sy now srv =
     (let state = rateLimitOrDefault srv sy;
          timeSinceLastRequest = now - lastRequest state
      in if timeSinceLastRequest < RATE_LIMIT_INTERVAL_MS
            \<or> timeSinceLastRequest < backoffMs state
         then (case depthCache srv sy of
                 None \<Rightarrow> None
               | Some c \<Rightarrow> if now - cachedAt c < CACHE_TTL_MS * 2 then Some c else None)
         else None)"

text \<open>Histories of the server's caches: a sequence of depth requests.\<close>

datatype request = DepthRequest string "int option" int fetch_outcome int

fun handleRequest :: "request \<Rightarrow> server \<Rightarrow> server" where
  "handleRequest (DepthRequest rawSymbol parsedLimit now outcome fetchNow) srv =
     snd (depthHandler rawSymbol parsedLimit now outcome fetchNow srv)"

fun runServer :: "request list \<Rightarrow> server \<Rightarrow> server" where
  "runServer [] srv = srv"
| "runServer (r # rs) srv = runServer rs (handleRequest r srv)"


section \<open>Forwarding upstream frames to clients\<close>

text \<open>
  An upstream frame, as the \<open>message\<close> handler sees it: either \<open>JSON.parse\<close> throws, or
  it returns a value whose \<open>msg?.data?.s\<close> is a string (\<open>Some\<close>) or is absent
  (\<open>None\<close>; a value that is not a string is in no client's set and behaves likewise).
\<close>

datatype frame = Unparseable | Parsed "string option"

text \<open>Whether the callback of \<open>wsClients.forEach\<close> calls \<open>client.send\<close>: an empty
  string is falsy.\<close>

definition forwardsTo :: "frame \<Rightarrow> server \<Rightarrow> WebSocket \<Rightarrow> bool" where
  "forwardsTo fr srv client =
     (if readyState client = OPEN then
        (case fr of
           Unparseable \<Rightarrow> True
         | Parsed data_s \<Rightarrow>
             (case clientSymbols srv (ws_id client) of
                None \<Rightarrow> False
              | Some clientSubs \<Rightarrow>
                  (case data_s of
                     None \<Rightarrow> False
                   | Some s \<Rightarrow> s \<noteq> [] \<and> s \<in> clientSubs)))
      else False)"

text \<open>The clients a frame is sent to, in the order of the sends.\<close>

definition onBinanceMessage :: "frame \<Rightarrow> server \<Rightarrow> WebSocket list" where
  "onBinanceMessage fr srv = filter (forwardsTo fr srv) (wsClients srv)"


section \<open>Kinds of fetch outcome\<close>

text \<open>An outcome on which the fetcher returns \<open>null\<close>: the fetch throws, the status is
  not a success, or the body does not pass the test of the data structure. Among these,
  the rate-limit statuses 429 and 418.\<close>

fun fetchFails :: "fetch_outcome \<Rightarrow> bool" where
  "fetchFails NetworkError = True"
| "fetchFails (Response status bdy) = (\<not> response_ok status \<or> validData bdy = None)"

fun isRateLimited :: "fetch_outcome \<Rightarrow> bool" where
  "isRateLimited NetworkError = False"
| "isRateLimited (Response status bdy) = (status = 429 \<or> status = 418)"


section \<open>Invariants\<close>

definition backoffInRange :: "engine \<Rightarrow> bool" where
  "backoffInRange st =
     (minBackoffMs \<le> snapshotBackoffMs st \<and> snapshotBackoffMs st \<le> maxBackoffMs)"

definition ratesInRange :: "server \<Rightarrow> bool" where
  "ratesInRange srv =
     (\<forall>k r. rateLimitState srv k = Some r \<longrightarrow>
        MIN_BACKOFF_MS \<le> backoffMs r \<and> backoffMs r \<le> MAX_BACKOFF_MS)"

definition syncedWhenSettled :: "engine \<Rightarrow> bool" where
  "syncedWhenSettled st = (\<not> needsResync st \<longrightarrow> isSynced st)"

definition quietWhenSettled :: "engine \<Rightarrow> bool" where
  "quietWhenSettled st =
     (\<not> needsResync st \<longrightarrow> isSynced st \<and> buffer st = [] \<and> \<not> resyncInFlight st)"


section \<open>Concrete inputs and states\<close>

text \<open>A snapshot at update id 500 and the engine synced from it with an empty buffer.\<close>

definition snap500 :: fetch_outcome where
  "snap500 = Response 200 (JsonObj \<lparr>p_lastUpdateId = Some 500,
      p_bids = Some [(''10'', ''1'')], p_asks = Some [(''11'', ''1'')]\<rparr>)"

definition synced500 :: engine where
  "synced500 = run [InitSnapshot 0, FetchDone snap500] (newEngine ''BTCUSDT'')"

text \<open>The next diff in sequence, and two diffs beyond a gap.\<close>

definition diff501 :: event where
  "diff501 = \<lparr>ev_U = 501, ev_u = 501, ev_b = Some [(''10'', ''2'')], ev_a = Some []\<rparr>"

definition gapDiff503 :: event where
  "gapDiff503 = \<lparr>ev_U = 503, ev_u = 503, ev_b = Some [(''10'', ''3'')], ev_a = Some []\<rparr>"

definition gapDiff504 :: event where
  "gapDiff504 = \<lparr>ev_U = 504, ev_u = 504, ev_b = Some [], ev_a = Some [(''11'', ''3'')]\<rparr>"

definition gapped500 :: engine where
  "gapped500 = processEvent gapDiff503 synced500"

text \<open>Two buffered diffs with the same final update id 501, the first straddling 501.\<close>

definition dupDiffA :: event where
  "dupDiffA = \<lparr>ev_U = 500, ev_u = 501, ev_b = Some [(''10'', ''2'')], ev_a = Some []\<rparr>"

definition dupDiffB :: event where
  "dupDiffB = \<lparr>ev_U = 501, ev_u = 501, ev_b = Some [(''10'', ''5'')], ev_a = Some []\<rparr>"

definition dupHistory :: "action list" where
  "dupHistory = [InitSnapshot 0, Diff dupDiffA, Diff dupDiffB, FetchDone snap500]"

text \<open>A diff in sequence and a diff beyond a gap, buffered while the snapshot at 500 is
  in flight, and the engine after the snapshot's levels are loaded.\<close>

definition gapBuffered :: engine where
  "gapBuffered = run [InitSnapshot 0, Diff diff501, Diff gapDiff503] (newEngine ''BTCUSDT'')"

definition gapCommitted :: engine where
  "gapCommitted = commitSnapshot 500 [(''10'', ''1'')] [(''11'', ''1'')] gapBuffered"

definition dupCommitted :: engine where
  "dupCommitted = commitSnapshot 500 [(''10'', ''1'')] [(''11'', ''1'')]
     (run [InitSnapshot 0, Diff dupDiffA, Diff dupDiffB] (newEngine ''BTCUSDT''))"

text \<open>A history in which the retry timer of a failed attempt fires after a later attempt
  has succeeded, a diff arrives while its fetch is in flight, and that fetch fails.\<close>

definition rateLimited :: fetch_outcome where
  "rateLimited = Response 429 NotJson"

definition leakHistory :: "action list" where
  "leakHistory =
     [InitSnapshot 0, FetchDone rateLimited, InitSnapshot 4000, FetchDone snap500,
      RetryTimer 4200, Diff diff501, FetchDone rateLimited]"

text \<open>The same history with the last fetch ending in a network error.\<close>

definition leakThenNetworkError :: "action list" where
  "leakThenNetworkError =
     [InitSnapshot 0, FetchDone rateLimited, InitSnapshot 4000, FetchDone snap500,
      RetryTimer 4200, Diff diff501, FetchDone NetworkError]"

text \<open>A snapshot with a level of quantity zero.\<close>

definition snapZero :: fetch_outcome where
  "snapZero = Response 200 (JsonObj \<lparr>p_lastUpdateId = Some 100,
      p_bids = Some [(''10'', ''0'')], p_asks = Some [(''11'', ''1'')]\<rparr>)"

text \<open>The first diff a fresh engine sees.\<close>

definition seedDiff :: event where
  "seedDiff = \<lparr>ev_U = 700, ev_u = 705, ev_b = Some [(''10'', ''1'')],
                ev_a = Some [(''11'', ''2'')]\<rparr>"

text \<open>A server with a rate-limit record and a cached snapshot for BTCUSDT, as one
  successful depth request leaves it.\<close>

definition snapTwo :: fetch_outcome where
  "snapTwo = Response 200 (JsonObj \<lparr>p_lastUpdateId = Some 100,
      p_bids = Some [(''10'', ''1''), (''9'', ''4'')], p_asks = Some [(''11'', ''1'')]\<rparr>)"

definition servedOnce :: server where
  "servedOnce = runServer [DepthRequest ''BTCUSDT'' None 1000 snapTwo 1000] initialServer"

text \<open>A server that has been rate limited once, and an engine that has been rate limited
  once and has started its next attempt.\<close>

definition limitedOnce :: server where
  "limitedOnce = runServer [DepthRequest ''BTCUSDT'' None 0 rateLimited 0] initialServer"

definition retrying :: engine where
  "retrying = run [InitSnapshot 0, FetchDone rateLimited, InitSnapshot 4000]
     (newEngine ''BTCUSDT'')"

text \<open>A success response whose body lacks the arrays.\<close>

definition noArrays :: fetch_outcome where
  "noArrays = Response 200 (JsonObj \<lparr>p_lastUpdateId = Some 100, p_bids = None, p_asks = None\<rparr>)"

text \<open>Three clients: two open ones subscribed to different symbols, and a closing one.\<close>

definition clientA :: WebSocket where "clientA = \<lparr>ws_id = 1, readyState = OPEN\<rparr>"
definition clientB :: WebSocket where "clientB = \<lparr>ws_id = 2, readyState = OPEN\<rparr>"
definition clientC :: WebSocket where "clientC = \<lparr>ws_id = 3, readyState = CLOSING\<rparr>"

definition threeClients :: server where
  "threeClients =
     initialServer\<lparr>wsClients := [clientA, clientB, clientC],
        clientSymbols := [1 \<mapsto> {''BTCUSDT''}, 2 \<mapsto> {''ETHUSDT''}, 3 \<mapsto> {''BTCUSDT''}]\<rparr>"


section \<open>Evaluation of the concrete states\<close>

lemmas engine_defs = processEvent_def addToBuffer_def applyEvent_def initSnapshot_begin_def
  initSnapshot_resume_def replayBuffer_def commitSnapshot_def scheduleRetry_def
  increaseBackoff_def retryTimerFires_def destroy_def newEngine_def response_ok_def
  loadLevels_def applyUpdate_def MAX_BUFFER_SIZE_def minBackoffMs_def maxBackoffMs_def
  dropCount_def parseFloat_def isDigit_def

lemmas server_defs = depthHandler_def fetchBinanceDepth_def rateLimitOrDefault_def
  initialServer_def response_ok_def toUpperCase_def requestLimit_def depthBody_def slice0_def
  MIN_BACKOFF_MS_def MAX_BACKOFF_MS_def RATE_LIMIT_INTERVAL_MS_def CACHE_TTL_MS_def Let_def

lemma synced500_eq:
  "synced500 =
     \<lparr>symbol = ''BTCUSDT'', bids = [(''10'', 1)], asks = [(''11'', 1)], lastUpdateId = 500,
      isSynced = True, buffer = [], resyncInFlight = False, lastResyncAt = 0,
      needsResync = False, degraded = False, snapshotBackoffMs = 2000,
      retryTimeoutId = None\<rparr>"
  by (simp add: synced500_def snap500_def engine_defs)

lemma gapped500_eq:
  "gapped500 =
     \<lparr>symbol = ''BTCUSDT'', bids = [(''10'', 1)], asks = [(''11'', 1)], lastUpdateId = 500,
      isSynced = True, buffer = [gapDiff503], resyncInFlight = False, lastResyncAt = 0,
      needsResync = True, degraded = False, snapshotBackoffMs = 2000,
      retryTimeoutId = None\<rparr>"
  by (simp add: gapped500_def synced500_eq gapDiff503_def engine_defs)


section \<open>Processing a diff in the synced state\<close>

text \<open>
  C2, as amended. In every engine state with \<open>isSynced\<close> true and \<open>resyncInFlight\<close>
  false, processing a diff \<open>e\<close> with \<open>e.u > lastUpdateId\<close> and \<open>e.U > lastUpdateId + 1\<close>
  leaves the buffer holding exactly \<open>e\<close> (events buffered before are first discarded by
  the steady-state guard, so \<open>e\<close> is appended to the previous buffer only when that was
  empty), sets \<open>needsResync\<close>, and leaves both sides of the book and \<open>lastUpdateId\<close> as
  they were.
\<close>

theorem gap_after_sync:
  assumes "isSynced st" and "\<not> resyncInFlight st"
    and "ev_u ev > lastUpdateId st" and "ev_U ev > lastUpdateId st + 1"
  shows "buffer (processEvent ev st) = [ev] \<and> needsResync (processEvent ev st)
       \<and> bids (processEvent ev st) = bids st \<and> asks (processEvent ev st) = asks st
       \<and> lastUpdateId (processEvent ev st) = lastUpdateId st"
  using assms by (simp add: processEvent_def addToBuffer_def MAX_BUFFER_SIZE_def)

theorem gap_after_sync_witness:
  "isSynced synced500 \<and> \<not> resyncInFlight synced500
   \<and> ev_u gapDiff503 > lastUpdateId synced500 \<and> ev_U gapDiff503 > lastUpdateId synced500 + 1
   \<and> buffer (processEvent gapDiff503 synced500) = [gapDiff503]
   \<and> needsResync (processEvent gapDiff503 synced500)
   \<and> bids (processEvent gapDiff503 synced500) = [(''10'', 1)]
   \<and> asks (processEvent gapDiff503 synced500) = [(''11'', 1)]
   \<and> lastUpdateId (processEvent gapDiff503 synced500) = 500"
proof -
  have h: "isSynced synced500" "\<not> resyncInFlight synced500"
    "ev_u gapDiff503 > lastUpdateId synced500" "ev_U gapDiff503 > lastUpdateId synced500 + 1"
    by (simp_all add: synced500_eq gapDiff503_def)
  from gap_after_sync[OF h] h show ?thesis by (simp add: synced500_eq)
qed

text \<open>
  C2 as stated fails where the buffer is not empty: after a first gapped diff (503) the
  engine is still synced with that diff buffered, and the next gapped diff (504) replaces
  it instead of being appended to it.
\<close>

theorem gap_append_counterexample:
  "isSynced gapped500 \<and> \<not> resyncInFlight gapped500
   \<and> ev_u gapDiff504 > lastUpdateId gapped500 \<and> ev_U gapDiff504 > lastUpdateId gapped500 + 1
   \<and> buffer gapped500 = [gapDiff503]
   \<and> buffer (processEvent gapDiff504 gapped500) = [gapDiff504]
   \<and> buffer (processEvent gapDiff504 gapped500) \<noteq> buffer gapped500 @ [gapDiff504]"
  by (simp add: gapped500_eq gapDiff504_def gapDiff503_def processEvent_def addToBuffer_def
      MAX_BUFFER_SIZE_def)

text \<open>
  C5. A synced engine (\<open>isSynced\<close> true, \<open>resyncInFlight\<close> false, empty buffer) that
  applies a diff \<open>e\<close> (one with \<open>e.u > lastUpdateId\<close> and \<open>e.U \<le> lastUpdateId + 1\<close>) is
  left unchanged by a second \<open>processEvent(e)\<close>: both sides of the book, \<open>lastUpdateId\<close>
  and the buffer stay as the first call left them, because then \<open>e.u \<le> lastUpdateId\<close>.
\<close>

theorem diff_idempotent:
  assumes "isSynced st" and "\<not> resyncInFlight st" and "buffer st = []"
    and "ev_u ev > lastUpdateId st" and "ev_U ev \<le> lastUpdateId st + 1"
  shows "processEvent ev st = applyEvent ev st
       \<and> ev_u ev \<le> lastUpdateId (processEvent ev st)
       \<and> bids (processEvent ev (processEvent ev st)) = bids (processEvent ev st)
       \<and> asks (processEvent ev (processEvent ev st)) = asks (processEvent ev st)
       \<and> lastUpdateId (processEvent ev (processEvent ev st)) = lastUpdateId (processEvent ev st)
       \<and> buffer (processEvent ev (processEvent ev st)) = buffer (processEvent ev st)"
  using assms by (simp add: processEvent_def applyEvent_def)

theorem diff_idempotent_witness:
  "isSynced synced500 \<and> \<not> resyncInFlight synced500 \<and> buffer synced500 = []
   \<and> ev_u diff501 > lastUpdateId synced500 \<and> ev_U diff501 \<le> lastUpdateId synced500 + 1
   \<and> bids (processEvent diff501 (processEvent diff501 synced500)) = [(''10'', 2)]
   \<and> lastUpdateId (processEvent diff501 (processEvent diff501 synced500)) = 501
   \<and> buffer (processEvent diff501 (processEvent diff501 synced500)) = []"
proof -
  have h: "isSynced synced500" "\<not> resyncInFlight synced500" "buffer synced500 = []"
    "ev_u diff501 > lastUpdateId synced500" "ev_U diff501 \<le> lastUpdateId synced500 + 1"
    by (simp_all add: synced500_eq diff501_def)
  have a: "applyEvent diff501 synced500 =
     synced500\<lparr>bids := [(''10'', 2)], asks := [(''11'', 1)], lastUpdateId := 501\<rparr>"
    by (simp add: synced500_eq diff501_def engine_defs)
  note d = diff_idempotent[OF h]
  have p: "processEvent diff501 synced500 =
     synced500\<lparr>bids := [(''10'', 2)], asks := [(''11'', 1)], lastUpdateId := 501\<rparr>"
    using d a by simp
  have b: "bids (processEvent diff501 synced500) = [(''10'', 2)]"
    "lastUpdateId (processEvent diff501 synced500) = 501"
    "buffer (processEvent diff501 synced500) = []"
    using h by (simp_all add: p)
  have d2: "bids (processEvent diff501 (processEvent diff501 synced500)) = [(''10'', 2)]"
    "lastUpdateId (processEvent diff501 (processEvent diff501 synced500)) = 501"
    "buffer (processEvent diff501 (processEvent diff501 synced500)) = []"
    using d b by metis+
  from d2 h show ?thesis by simp
qed


section \<open>What the replay and a snapshot attempt leave untouched\<close>


lemma replayLoop_buffer: "buffer (snd (replayLoop evs st)) = []"
  by (induction evs arbitrary: st) (simp_all add: applyEvent_def)

lemma replayLoop_frame:
  "isSynced (snd (replayLoop evs st)) = isSynced st \<and>
   needsResync (snd (replayLoop evs st)) = needsResync st \<and>
   resyncInFlight (snd (replayLoop evs st)) = resyncInFlight st \<and>
   degraded (snd (replayLoop evs st)) = degraded st \<and>
   snapshotBackoffMs (snd (replayLoop evs st)) = snapshotBackoffMs st \<and>
   retryTimeoutId (snd (replayLoop evs st)) = retryTimeoutId st"
  by (induction evs arbitrary: st) (simp_all add: applyEvent_def)

lemma replayBuffer_buffer: "buffer (snd (replayBuffer st)) = []"
  by (simp add: replayBuffer_def Let_def replayLoop_buffer split: option.split)

lemma replayBuffer_frame:
  "isSynced (snd (replayBuffer st)) = isSynced st \<and>
   needsResync (snd (replayBuffer st)) = needsResync st \<and>
   resyncInFlight (snd (replayBuffer st)) = resyncInFlight st \<and>
   degraded (snd (replayBuffer st)) = degraded st \<and>
   snapshotBackoffMs (snd (replayBuffer st)) = snapshotBackoffMs st \<and>
   retryTimeoutId (snd (replayBuffer st)) = retryTimeoutId st"
  by (simp add: replayBuffer_def Let_def replayLoop_frame split: option.split)


lemma processEvent_backoff: "snapshotBackoffMs (processEvent ev st) = snapshotBackoffMs st"
  by (simp add: processEvent_def addToBuffer_def applyEvent_def Let_def)

lemma scheduleRetry_backoff: "snapshotBackoffMs (scheduleRetry st) = snapshotBackoffMs st"
  by (simp add: scheduleRetry_def)

lemma increaseBackoff_range: "backoffInRange st \<Longrightarrow> backoffInRange (increaseBackoff st)"
  by (simp add: backoffInRange_def increaseBackoff_def minBackoffMs_def maxBackoffMs_def)

lemma resume_backoff: "backoffInRange st \<Longrightarrow> backoffInRange (initSnapshot_resume outcome st)"
proof -
  assume a: "backoffInRange st"
  have i: "backoffInRange (increaseBackoff st)" using a by (rule increaseBackoff_range)
  show ?thesis
  proof (cases outcome)
    case NetworkError
    with i show ?thesis
      by (simp add: initSnapshot_resume_def backoffInRange_def scheduleRetry_backoff)
  next
    case (Response status bdy)
    show ?thesis
    proof (cases "validData bdy")
      case None
      with i Response show ?thesis
        by (simp add: initSnapshot_resume_def backoffInRange_def scheduleRetry_backoff)
    next
      case (Some t)
      obtain l bs as where t: "t = (l, bs, as)" by (cases t) auto
      obtain ok st2 where r: "replayBuffer (commitSnapshot l bs as st) = (ok, st2)"
        by (cases "replayBuffer (commitSnapshot l bs as st)") auto
      have "snapshotBackoffMs st2 = snapshotBackoffMs st"
        using replayBuffer_frame[of "commitSnapshot l bs as st"] r
        by (simp add: commitSnapshot_def)
      with i a Response Some t r show ?thesis
        by (cases ok) (simp_all add: initSnapshot_resume_def backoffInRange_def scheduleRetry_backoff
            minBackoffMs_def maxBackoffMs_def)
    qed
  qed
qed

lemma step_backoff:
  assumes "backoffInRange st"
  shows "backoffInRange (step x st)"
proof (cases x)
  case (Diff ev)
  with assms show ?thesis by (simp add: backoffInRange_def processEvent_backoff)
next
  case (InitSnapshot now)
  with assms show ?thesis by (simp add: backoffInRange_def initSnapshot_begin_def)
next
  case (FetchDone outcome)
  with assms resume_backoff[OF assms, of outcome] show ?thesis by simp
next
  case (RetryTimer now)
  with assms show ?thesis
    by (simp add: backoffInRange_def retryTimerFires_def initSnapshot_begin_def Let_def)
next
  case Destroy
  with assms show ?thesis by (simp add: backoffInRange_def destroy_def)
qed

lemma run_backoff: "backoffInRange st \<Longrightarrow> backoffInRange (run xs st)"
  by (induction xs arbitrary: st) (simp_all add: step_backoff)




lemma processEvent_flags:
  "\<not> needsResync (processEvent ev st) \<Longrightarrow>
     \<not> needsResync st \<and> isSynced (processEvent ev st) = isSynced st
     \<and> resyncInFlight (processEvent ev st) = resyncInFlight st"
  by (simp add: processEvent_def addToBuffer_def applyEvent_def Let_def split: if_splits)

lemma processEvent_synced: "syncedWhenSettled st \<Longrightarrow> syncedWhenSettled (processEvent ev st)"
  using processEvent_flags[of ev st] by (auto simp: syncedWhenSettled_def)

lemma processEvent_quiet_buffer:
  "isSynced st \<Longrightarrow> \<not> resyncInFlight st \<Longrightarrow> \<not> needsResync (processEvent ev st)
     \<Longrightarrow> buffer (processEvent ev st) = []"
  by (simp add: processEvent_def addToBuffer_def applyEvent_def Let_def split: if_splits)

lemma processEvent_quiet: "quietWhenSettled st \<Longrightarrow> quietWhenSettled (processEvent ev st)"
  using processEvent_flags[of ev st] processEvent_quiet_buffer[of st ev]
  by (auto simp: quietWhenSettled_def)

lemma resume_settled:
  "\<not> needsResync (initSnapshot_resume outcome st) \<Longrightarrow>
     (\<not> needsResync st \<and> isSynced (initSnapshot_resume outcome st) = isSynced st
        \<and> buffer (initSnapshot_resume outcome st) = buffer st)
     \<or> (isSynced (initSnapshot_resume outcome st) \<and> buffer (initSnapshot_resume outcome st) = [])"
proof (cases outcome)
  case NetworkError
  assume "\<not> needsResync (initSnapshot_resume outcome st)"
  with NetworkError show ?thesis
    by (simp add: initSnapshot_resume_def scheduleRetry_def increaseBackoff_def split: if_splits)
next
  case (Response status bdy)
  assume n: "\<not> needsResync (initSnapshot_resume outcome st)"
  show ?thesis
  proof (cases "validData bdy")
    case None
    with n Response show ?thesis
      by (simp add: initSnapshot_resume_def scheduleRetry_def increaseBackoff_def split: if_splits)
  next
    case (Some t)
    obtain l bs as where t: "t = (l, bs, as)" by (cases t) auto
    obtain ok st2 where r: "replayBuffer (commitSnapshot l bs as st) = (ok, st2)"
      by (cases "replayBuffer (commitSnapshot l bs as st)") auto
    have b: "buffer st2 = []" using replayBuffer_buffer[of "commitSnapshot l bs as st"] r by simp
    show ?thesis
    proof (cases "response_ok status \<and> bdy \<noteq> NotJson")
      case True
      with n Response Some t r b show ?thesis
        by (cases ok) (simp_all add: initSnapshot_resume_def scheduleRetry_def split: if_splits)
    next
      case False
      with n Response show ?thesis
        by (auto simp add: initSnapshot_resume_def scheduleRetry_def increaseBackoff_def split: if_splits)
    qed
  qed
qed

lemma resume_not_in_flight: "\<not> resyncInFlight (initSnapshot_resume outcome st)"
  by (simp add: initSnapshot_resume_def)

lemma step_synced: "syncedWhenSettled st \<Longrightarrow> syncedWhenSettled (step x st)"
proof (cases x)
  case (Diff ev)
  assume "syncedWhenSettled st"
  with Diff show ?thesis by (simp add: processEvent_synced)
next
  case (InitSnapshot now)
  assume "syncedWhenSettled st"
  with InitSnapshot show ?thesis by (simp add: syncedWhenSettled_def initSnapshot_begin_def)
next
  case (FetchDone outcome)
  assume "syncedWhenSettled st"
  with FetchDone resume_settled[of outcome st] show ?thesis
    by (auto simp: syncedWhenSettled_def)
next
  case (RetryTimer now)
  assume "syncedWhenSettled st"
  with RetryTimer show ?thesis
    by (simp add: syncedWhenSettled_def retryTimerFires_def initSnapshot_begin_def Let_def)
next
  case Destroy
  assume "syncedWhenSettled st"
  with Destroy show ?thesis by (simp add: syncedWhenSettled_def destroy_def)
qed

lemma begin_quiet:
  assumes q: "quietWhenSettled st" and s: "\<not> resyncInFlight st \<longrightarrow> needsResync st"
  shows "quietWhenSettled (initSnapshot_begin now st)"
proof (cases "resyncInFlight st")
  case True
  with q show ?thesis by (simp add: initSnapshot_begin_def)
next
  case False
  with s have "needsResync st" by simp
  then show ?thesis by (simp add: quietWhenSettled_def initSnapshot_begin_def)
qed

lemma resume_quiet:
  assumes q: "quietWhenSettled st"
  shows "quietWhenSettled (initSnapshot_resume outcome st)"
proof -
  have f: "\<not> resyncInFlight (initSnapshot_resume outcome st)" by (rule resume_not_in_flight)
  show ?thesis
  proof (cases "needsResync (initSnapshot_resume outcome st)")
    case True
    then show ?thesis by (simp add: quietWhenSettled_def)
  next
    case False
    from resume_settled[OF False] q f False show ?thesis
      unfolding quietWhenSettled_def by metis
  qed
qed

lemma step_quiet:
  assumes q: "quietWhenSettled st" and s: "startsFetch x st \<longrightarrow> needsResync st"
  shows "quietWhenSettled (step x st)"
proof (cases x)
  case (Diff ev)
  with q show ?thesis by (simp add: processEvent_quiet)
next
  case (InitSnapshot now)
  have "\<not> resyncInFlight st \<longrightarrow> needsResync st"
    using s InitSnapshot by (simp add: startsFetch_def initSnapshot_begin_def)
  with q InitSnapshot show ?thesis by (simp add: begin_quiet)
next
  case (FetchDone outcome)
  with q show ?thesis by (simp add: resume_quiet)
next
  case (RetryTimer now)
  show ?thesis
  proof (cases "retryTimeoutId st \<noteq> None \<and> \<not> resyncInFlight st")
    case True
    let ?st1 = "st\<lparr>retryTimeoutId := None\<rparr>"
    have e: "step x st = initSnapshot_begin now ?st1"
      using True RetryTimer by (simp add: retryTimerFires_def)
    have "startsFetch x st" using True e by (simp add: startsFetch_def initSnapshot_begin_def)
    with s have n: "needsResync ?st1" by simp
    have "quietWhenSettled ?st1" using q by (simp add: quietWhenSettled_def)
    with n e show ?thesis by (simp add: begin_quiet)
  next
    case False
    with q RetryTimer show ?thesis
      by (auto simp: quietWhenSettled_def retryTimerFires_def)
  qed
next
  case Destroy
  with q show ?thesis by (simp add: quietWhenSettled_def destroy_def)
qed

lemma run_synced: "syncedWhenSettled st \<Longrightarrow> syncedWhenSettled (run xs st)"
  by (induction xs arbitrary: st) (simp_all add: step_synced)

lemma run_quiet:
  "quietWhenSettled st \<Longrightarrow> startsOnlyWhenNeeded xs st \<Longrightarrow> quietWhenSettled (run xs st)"
  by (induction xs arbitrary: st) (simp_all add: step_quiet)


section \<open>The rate-limit records of the server stay in range\<close>

lemma default_in_range:
  "ratesInRange srv \<Longrightarrow>
     MIN_BACKOFF_MS \<le> backoffMs (rateLimitOrDefault srv k)
     \<and> backoffMs (rateLimitOrDefault srv k) \<le> MAX_BACKOFF_MS"
  by (auto simp: ratesInRange_def rateLimitOrDefault_def MIN_BACKOFF_MS_def MAX_BACKOFF_MS_def
      split: option.splits)

lemma fetch_rates:
  assumes "ratesInRange srv"
  shows "ratesInRange (snd (fetchBinanceDepth sy limit outcome now srv))"
proof (cases outcome)
  case NetworkError
  with assms show ?thesis by (simp add: fetchBinanceDepth_def)
next
  case (Response status bdy)
  from default_in_range[OF assms, of sy]
  have d: "MIN_BACKOFF_MS \<le> backoffMs (rateLimitOrDefault srv sy)" by simp
  show ?thesis
  proof (cases "response_ok status")
    case False
    with assms d Response show ?thesis
      by (auto simp: fetchBinanceDepth_def ratesInRange_def Let_def MIN_BACKOFF_MS_def
          MAX_BACKOFF_MS_def)
  next
    case True
    show ?thesis
    proof (cases "validData bdy")
      case None
      with assms True Response show ?thesis by (simp add: fetchBinanceDepth_def)
    next
      case (Some t)
      obtain l bs as where "t = (l, bs, as)" by (cases t) auto
      with assms True Response Some show ?thesis
        by (auto simp: fetchBinanceDepth_def ratesInRange_def Let_def MIN_BACKOFF_MS_def
            MAX_BACKOFF_MS_def)
    qed
  qed
qed

lemma handler_srv:
  "snd (depthHandler rawSymbol parsedLimit now outcome fetchNow srv) = srv
   \<or> snd (depthHandler rawSymbol parsedLimit now outcome fetchNow srv)
       = snd (fetchBinanceDepth (toUpperCase rawSymbol) (requestLimit parsedLimit) outcome fetchNow srv)"
  by (simp add: depthHandler_def Let_def split: option.splits prod.splits)

lemma handle_rates: "ratesInRange srv \<Longrightarrow> ratesInRange (handleRequest r srv)"
proof (cases r)
  case (DepthRequest rawSymbol parsedLimit now outcome fetchNow)
  assume a: "ratesInRange srv"
  from handler_srv[of rawSymbol parsedLimit now outcome fetchNow srv]
    fetch_rates[OF a, of "toUpperCase rawSymbol" "requestLimit parsedLimit" outcome fetchNow]
    a DepthRequest
  show ?thesis by auto
qed

lemma runServer_rates: "ratesInRange srv \<Longrightarrow> ratesInRange (runServer rs srv)"
  by (induction rs arbitrary: srv) (simp_all add: handle_rates)


section \<open>Backoff bounds\<close>

lemma resume_failure_backoff:
  "fetchFails outcome \<Longrightarrow>
     snapshotBackoffMs (initSnapshot_resume outcome st) = min (snapshotBackoffMs st * 2) 30000"
proof (cases outcome)
  case NetworkError
  then show ?thesis
    by (simp add: initSnapshot_resume_def scheduleRetry_backoff increaseBackoff_def maxBackoffMs_def)
next
  case (Response status bdy)
  assume "fetchFails outcome"
  with Response show ?thesis
    by (auto simp: initSnapshot_resume_def scheduleRetry_backoff increaseBackoff_def
        maxBackoffMs_def)
qed

lemma resume_success_backoff:
  assumes "response_ok status" and "validData bdy = Some (l, bs, as)"
    and "fst (replayBuffer (commitSnapshot l bs as st))"
  shows "snapshotBackoffMs (initSnapshot_resume (Response status bdy) st) = 2000"
proof -
  obtain ok st2 where r: "replayBuffer (commitSnapshot l bs as st) = (ok, st2)"
    by (cases "replayBuffer (commitSnapshot l bs as st)") auto
  with assms(3) have ok by simp
  moreover from assms(2) have "bdy \<noteq> NotJson" by auto
  ultimately show ?thesis using assms(1,2) r
    by (simp add: initSnapshot_resume_def minBackoffMs_def)
qed

lemma fetch_limited_backoff:
  "isRateLimited outcome \<Longrightarrow>
     backoffMs (rateLimitOrDefault (snd (fetchBinanceDepth sy limit outcome now srv)) sy)
       = min (backoffMs (rateLimitOrDefault srv sy) * 2) 30000"
  by (cases outcome)
    (auto simp: fetchBinanceDepth_def response_ok_def Let_def MAX_BACKOFF_MS_def
      rateLimitOrDefault_def)

lemma fetch_success_backoff:
  "response_ok status \<Longrightarrow> validData bdy = Some (l, bs, as) \<Longrightarrow>
     backoffMs (rateLimitOrDefault
        (snd (fetchBinanceDepth sy limit (Response status bdy) now srv)) sy) = 2000"
  by (simp add: fetchBinanceDepth_def Let_def MIN_BACKOFF_MS_def rateLimitOrDefault_def)

lemma resume_replay_failed_backoff:
  assumes "response_ok status" and "validData bdy = Some (l, bs, as)"
    and "\<not> fst (replayBuffer (commitSnapshot l bs as st))"
  shows "snapshotBackoffMs (initSnapshot_resume (Response status bdy) st) = snapshotBackoffMs st"
proof -
  obtain ok st2 where r: "replayBuffer (commitSnapshot l bs as st) = (ok, st2)"
    by (cases "replayBuffer (commitSnapshot l bs as st)") auto
  with assms(3) have ok: "\<not> ok" by simp
  have "snapshotBackoffMs st2 = snapshotBackoffMs st"
    using replayBuffer_frame[of "commitSnapshot l bs as st"] r by (simp add: commitSnapshot_def)
  moreover from assms(2) have "bdy \<noteq> NotJson" by auto
  ultimately show ?thesis using assms(1,2) r ok
    by (simp add: initSnapshot_resume_def scheduleRetry_backoff)
qed

lemma limitedOnce_eq:
  "limitedOnce =
     \<lparr>depthCache = Map.empty,
      rateLimitState = [''BTCUSDT'' \<mapsto> \<lparr>lastRequest = 0, backoffMs = 4000\<rparr>],
      wsClients = [], clientSymbols = Map.empty\<rparr>"
  by (simp add: limitedOnce_def server_defs rateLimited_def)

lemma retrying_eq:
  "retrying =
     \<lparr>symbol = ''BTCUSDT'', bids = [], asks = [], lastUpdateId = 0, isSynced = False,
      buffer = [], resyncInFlight = True, lastResyncAt = 4000, needsResync = True,
      degraded = False, snapshotBackoffMs = 4000, retryTimeoutId = Some 4000\<rparr>"
  by (simp add: retrying_def rateLimited_def engine_defs)

text \<open>
  C9. In every state the server reaches by depth requests, every rate-limit record (and
  the default read for a symbol without one) has \<open>2000 \<le> backoffMs \<le> 30000\<close>; a symbol
  without a record reads 2000; a fetch that is rate limited (429 or 418) leaves the
  symbol's backoff at the double of what it was, capped at 30000, and a successful fetch
  leaves it at 2000. In every state an engine reaches from its constructor,
  \<open>2000 \<le> snapshotBackoffMs \<le> 30000\<close>; the engine starts at 2000; a snapshot attempt
  whose fetch fails leaves the double, capped at 30000; a snapshot that is fetched and
  replayed leaves 2000, and one whose replay fails leaves the backoff as it was.
\<close>

theorem backoff_bounds:
  "(rateLimitState (runServer rs initialServer) k = Some r
      \<longrightarrow> 2000 \<le> backoffMs r \<and> backoffMs r \<le> 30000)
   \<and> 2000 \<le> backoffMs (rateLimitOrDefault (runServer rs initialServer) k)
   \<and> backoffMs (rateLimitOrDefault (runServer rs initialServer) k) \<le> 30000
   \<and> backoffMs (rateLimitOrDefault initialServer k) = 2000
   \<and> (isRateLimited outcome \<longrightarrow>
        backoffMs (rateLimitOrDefault (snd (fetchBinanceDepth k limit outcome now srv)) k)
          = min (backoffMs (rateLimitOrDefault srv k) * 2) 30000)
   \<and> (response_ok status \<and> validData bdy = Some (l, bs, as) \<longrightarrow>
        backoffMs (rateLimitOrDefault
           (snd (fetchBinanceDepth k limit (Response status bdy) now srv)) k) = 2000)
   \<and> 2000 \<le> snapshotBackoffMs (run xs (newEngine name))
   \<and> snapshotBackoffMs (run xs (newEngine name)) \<le> 30000
   \<and> snapshotBackoffMs (newEngine name) = 2000
   \<and> (fetchFails outcome \<longrightarrow>
        snapshotBackoffMs (initSnapshot_resume outcome st)
          = min (snapshotBackoffMs st * 2) 30000)
   \<and> (response_ok status \<and> validData bdy = Some (l, bs, as)
        \<and> fst (replayBuffer (commitSnapshot l bs as st)) \<longrightarrow>
        snapshotBackoffMs (initSnapshot_resume (Response status bdy) st) = 2000)
   \<and> (response_ok status \<and> validData bdy = Some (l, bs, as)
        \<and> \<not> fst (replayBuffer (commitSnapshot l bs as st)) \<longrightarrow>
        snapshotBackoffMs (initSnapshot_resume (Response status bdy) st)
          = snapshotBackoffMs st)"
proof -
  have "ratesInRange initialServer" by (simp add: ratesInRange_def initialServer_def)
  then have a: "ratesInRange (runServer rs initialServer)" by (rule runServer_rates)
  have "backoffInRange (newEngine name)"
    by (simp add: backoffInRange_def newEngine_def minBackoffMs_def maxBackoffMs_def)
  then have b: "backoffInRange (run xs (newEngine name))" by (rule run_backoff)
  have c1: "(rateLimitState (runServer rs initialServer) k = Some r
      \<longrightarrow> 2000 \<le> backoffMs r \<and> backoffMs r \<le> 30000)
   \<and> 2000 \<le> backoffMs (rateLimitOrDefault (runServer rs initialServer) k)
   \<and> backoffMs (rateLimitOrDefault (runServer rs initialServer) k) \<le> 30000
   \<and> 2000 \<le> snapshotBackoffMs (run xs (newEngine name))
   \<and> snapshotBackoffMs (run xs (newEngine name)) \<le> 30000
   \<and> snapshotBackoffMs (newEngine name) = 2000"
    using a default_in_range[OF a, of k] b
    by (simp add: ratesInRange_def backoffInRange_def MIN_BACKOFF_MS_def MAX_BACKOFF_MS_def
        minBackoffMs_def maxBackoffMs_def newEngine_def)
  have c2: "backoffMs (rateLimitOrDefault initialServer k) = 2000"
    by (simp add: rateLimitOrDefault_def initialServer_def MIN_BACKOFF_MS_def)
  note c3 = fetch_limited_backoff[of outcome k limit now srv]
  note c4 = fetch_success_backoff[of status bdy l bs as k limit now srv]
  note c5 = resume_failure_backoff[of outcome st]
  note c6 = resume_success_backoff[of status bdy l bs as st]
  note c7 = resume_replay_failed_backoff[of status bdy l bs as st]
  from c1 c2 c3 c4 c5 c6 c7 show ?thesis by blast
qed

theorem backoff_bounds_witness:
  "rateLimitState (runServer [DepthRequest ''BTCUSDT'' None 0 rateLimited 0] initialServer)
       ''BTCUSDT'' = Some \<lparr>lastRequest = 0, backoffMs = 4000\<rparr>
   \<and> (2000::int) \<le> 4000 \<and> (4000::int) \<le> 30000
   \<and> backoffMs (rateLimitOrDefault
        (snd (fetchBinanceDepth ''BTCUSDT'' 1000 rateLimited 9000 limitedOnce)) ''BTCUSDT'') = 8000
   \<and> backoffMs (rateLimitOrDefault
        (snd (fetchBinanceDepth ''BTCUSDT'' 1000 snapTwo 9000 limitedOnce)) ''BTCUSDT'') = 2000
   \<and> snapshotBackoffMs retrying = 4000
   \<and> snapshotBackoffMs (initSnapshot_resume rateLimited retrying) = 8000
   \<and> snapshotBackoffMs (initSnapshot_resume NetworkError retrying) = 8000
   \<and> snapshotBackoffMs (initSnapshot_resume snap500 retrying) = 2000"
proof -
  let ?b = "JsonObj \<lparr>p_lastUpdateId = Some 100,
      p_bids = Some [(''10'', ''1''), (''9'', ''4'')], p_asks = Some [(''11'', ''1'')]\<rparr>"
  let ?b5 = "JsonObj \<lparr>p_lastUpdateId = Some 500,
      p_bids = Some [(''10'', ''1'')], p_asks = Some [(''11'', ''1'')]\<rparr>"
  have h: "rateLimitState
      (runServer [DepthRequest ''BTCUSDT'' None 0 rateLimited 0] initialServer) ''BTCUSDT''
        = Some \<lparr>lastRequest = 0, backoffMs = 4000\<rparr>"
    using limitedOnce_eq by (simp add: limitedOnce_def)
  have d: "backoffMs (rateLimitOrDefault limitedOnce ''BTCUSDT'') = 4000"
    by (simp add: limitedOnce_eq rateLimitOrDefault_def)
  have e: "snapshotBackoffMs retrying = 4000" by (simp add: retrying_eq)
  have v: "isRateLimited rateLimited" "fetchFails rateLimited" "fetchFails NetworkError"
    "response_ok 200"
    "validData ?b = Some (100, [(''10'', ''1''), (''9'', ''4'')], [(''11'', ''1'')])"
    "validData ?b5 = Some (500, [(''10'', ''1'')], [(''11'', ''1'')])"
    by (simp_all add: rateLimited_def response_ok_def)
  have rp: "fst (replayBuffer (commitSnapshot 500 [(''10'', ''1'')] [(''11'', ''1'')] retrying))"
    by (simp add: retrying_eq replayBuffer_def commitSnapshot_def)
  note t0 = backoff_bounds[where rs = "[DepthRequest ''BTCUSDT'' None 0 rateLimited 0]"
      and k = "''BTCUSDT''" and r = "\<lparr>lastRequest = 0, backoffMs = 4000\<rparr>"]
  note t1 = backoff_bounds[where k = "''BTCUSDT''" and outcome = rateLimited and limit = 1000
      and now = 9000 and srv = limitedOnce and st = retrying]
  note t2 = backoff_bounds[where k = "''BTCUSDT''" and status = 200 and bdy = ?b
      and l = 100 and bs = "[(''10'', ''1''), (''9'', ''4'')]" and as = "[(''11'', ''1'')]"
      and limit = 1000 and now = 9000 and srv = limitedOnce]
  note t3 = backoff_bounds[where outcome = NetworkError and st = retrying]
  note t4 = backoff_bounds[where status = 200 and bdy = ?b5 and l = 500
      and bs = "[(''10'', ''1'')]" and as = "[(''11'', ''1'')]" and st = retrying]
  have a0: "(2000::int) \<le> 4000 \<and> (4000::int) \<le> 30000" using t0 h by simp
  have a1: "backoffMs (rateLimitOrDefault
        (snd (fetchBinanceDepth ''BTCUSDT'' 1000 rateLimited 9000 limitedOnce)) ''BTCUSDT'')
      = min (backoffMs (rateLimitOrDefault limitedOnce ''BTCUSDT'') * 2) 30000"
    using t1 v(1) by blast
  have a2: "backoffMs (rateLimitOrDefault
        (snd (fetchBinanceDepth ''BTCUSDT'' 1000 (Response 200 ?b) 9000 limitedOnce))
          ''BTCUSDT'') = 2000"
    using t2 v(4,5) by blast
  have a3: "snapshotBackoffMs (initSnapshot_resume rateLimited retrying)
      = min (snapshotBackoffMs retrying * 2) 30000"
    using t1 v(2) by blast
  have a4: "snapshotBackoffMs (initSnapshot_resume NetworkError retrying)
      = min (snapshotBackoffMs retrying * 2) 30000"
    using t3 v(3) by blast
  have a5: "snapshotBackoffMs (initSnapshot_resume (Response 200 ?b5) retrying) = 2000"
    using t4 v(4,6) rp by blast
  from h a0 a1 a2 a3 a4 a5 d e show ?thesis by (simp add: snapTwo_def snap500_def)
qed


section \<open>When no resync is needed\<close>

text \<open>In every state an engine reaches, \<open>needsResync == false\<close> implies
  \<open>isSynced == true\<close>; and the buffer is then empty in every history in which no
  snapshot is started while \<open>needsResync\<close> is false.\<close>

lemma settled_implies_synced:
  "\<not> needsResync (run xs (newEngine name)) \<Longrightarrow> isSynced (run xs (newEngine name))"
proof -
  have "syncedWhenSettled (newEngine name)" by (simp add: syncedWhenSettled_def newEngine_def)
  from run_synced[OF this, of xs] show
    "\<not> needsResync (run xs (newEngine name)) \<Longrightarrow> isSynced (run xs (newEngine name))"
    by (simp add: syncedWhenSettled_def)
qed

lemma settled_buffer_empty:
  "startsOnlyWhenNeeded xs (newEngine name) \<Longrightarrow> \<not> needsResync (run xs (newEngine name))
     \<Longrightarrow> buffer (run xs (newEngine name)) = []"
proof -
  have "quietWhenSettled (newEngine name)" by (simp add: quietWhenSettled_def newEngine_def)
  from run_quiet[OF this, of xs] show
    "startsOnlyWhenNeeded xs (newEngine name) \<Longrightarrow> \<not> needsResync (run xs (newEngine name))
     \<Longrightarrow> buffer (run xs (newEngine name)) = []"
    by (simp add: quietWhenSettled_def)
qed

text \<open>
  C3 at the history \<open>leakHistory\<close>. The retry timer left by a rate-limited attempt fires
  after a later attempt has synced the engine and starts a snapshot; a diff arrives while
  that fetch is in flight and is buffered; the fetch is answered with 429. The engine is
  left with \<open>needsResync\<close> false, synced, no resync in flight, and the diff in its buffer.
  When the same fetch ends in a network error instead, \<open>needsResync\<close> is set.
\<close>

theorem late_retry_leaks_buffer:
  "needsResync (run leakHistory (newEngine ''BTCUSDT'')) = False
   \<and> isSynced (run leakHistory (newEngine ''BTCUSDT'')) = True
   \<and> resyncInFlight (run leakHistory (newEngine ''BTCUSDT'')) = False
   \<and> buffer (run leakHistory (newEngine ''BTCUSDT'')) = [diff501]
   \<and> needsResync (run leakThenNetworkError (newEngine ''BTCUSDT'')) = True
   \<and> buffer (run leakThenNetworkError (newEngine ''BTCUSDT'')) = [diff501]"
  by (simp add: leakHistory_def leakThenNetworkError_def rateLimited_def snap500_def
      diff501_def engine_defs)


section \<open>Replay of the buffer\<close>

lemma findStart_Some:
  "findStart l evs k = Some i \<Longrightarrow>
     k \<le> i \<and> i - k < length evs \<and> ev_U (evs ! (i - k)) \<le> l + 1 \<and> l + 1 \<le> ev_u (evs ! (i - k))"
proof (induction evs arbitrary: k)
  case Nil
  then show ?case by simp
next
  case (Cons ev evs)
  show ?case
  proof (cases "ev_u ev > l \<and> ev_U ev \<le> l + 1 \<and> ev_u ev \<ge> l + 1")
    case True
    with Cons.prems show ?thesis by (auto split: if_splits)
  next
    case False
    with Cons.prems have "findStart l evs (Suc k) = Some i" by (auto split: if_splits)
    from Cons.IH[OF this]
    have ih: "Suc k \<le> i" "i - Suc k < length evs" "ev_U (evs ! (i - Suc k)) \<le> l + 1"
      "l + 1 \<le> ev_u (evs ! (i - Suc k))" by simp_all
    from ih(1) have "i - k = Suc (i - Suc k)" by arith
    with ih show ?thesis by simp
  qed
qed

lemma gapBuffered_eq:
  "gapBuffered =
     \<lparr>symbol = ''BTCUSDT'', bids = [], asks = [], lastUpdateId = 0, isSynced = False,
      buffer = [diff501, gapDiff503], resyncInFlight = True, lastResyncAt = 0,
      needsResync = True, degraded = False, snapshotBackoffMs = 2000,
      retryTimeoutId = None\<rparr>"
  by (simp add: gapBuffered_def engine_defs)

lemma gapCommitted_eq:
  "gapCommitted =
     \<lparr>symbol = ''BTCUSDT'', bids = [(''10'', 1)], asks = [(''11'', 1)], lastUpdateId = 500,
      isSynced = False, buffer = [diff501, gapDiff503], resyncInFlight = True,
      lastResyncAt = 0, needsResync = True, degraded = False, snapshotBackoffMs = 2000,
      retryTimeoutId = None\<rparr>"
  by (simp add: gapCommitted_def gapBuffered_eq engine_defs)

lemma dupCommitted_eq:
  "dupCommitted =
     \<lparr>symbol = ''BTCUSDT'', bids = [(''10'', 1)], asks = [(''11'', 1)], lastUpdateId = 500,
      isSynced = False, buffer = [dupDiffA, dupDiffB], resyncInFlight = True,
      lastResyncAt = 0, needsResync = True, degraded = False, snapshotBackoffMs = 2000,
      retryTimeoutId = None\<rparr>"
  by (simp add: dupCommitted_def engine_defs)

lemma gap_sorted: "sort_key ev_u [diff501, gapDiff503] = [diff501, gapDiff503]"
  by (simp add: diff501_def gapDiff503_def)

text \<open>
  C1, as amended. When the sorted (\<open>u\<close>-ascending) buffer has a first straddling event at
  index \<open>i\<close>, the replay runs over the events from \<open>i\<close> on, and for each event \<open>e\<close> in
  turn, against the current \<open>lastUpdateId\<close>: if \<open>e.U > lastUpdateId + 1\<close> the replay fails
  (it returns false with the buffer cleared); otherwise \<open>e\<close> is applied when
  \<open>e.u > lastUpdateId\<close> and is passed over, the replay continuing, when
  \<open>e.u \<le> lastUpdateId\<close>. When the replay fails, \<open>initSnapshot\<close> leaves the engine
  unsynced with \<open>needsResync\<close> set, an empty buffer and a retry timer pending.
\<close>

theorem replay_continuity:
  "(buffer st \<noteq> [] \<and> findStart (lastUpdateId st) (sort_key ev_u (buffer st)) 0 = Some i
      \<longrightarrow> i < length (buffer st)
        \<and> ev_U (sort_key ev_u (buffer st) ! i) \<le> lastUpdateId st + 1
        \<and> lastUpdateId st + 1 \<le> ev_u (sort_key ev_u (buffer st) ! i)
        \<and> replayBuffer st
            = replayLoop (drop i (sort_key ev_u (buffer st)))
                (st\<lparr>buffer := sort_key ev_u (buffer st)\<rparr>))
   \<and> (ev_U ev > lastUpdateId st + 1
      \<longrightarrow> replayLoop (ev # evs) st = (False, st\<lparr>buffer := []\<rparr>))
   \<and> (ev_U ev \<le> lastUpdateId st + 1 \<and> ev_u ev > lastUpdateId st
      \<longrightarrow> replayLoop (ev # evs) st = replayLoop evs (applyEvent ev st))
   \<and> (ev_U ev \<le> lastUpdateId st + 1 \<and> ev_u ev \<le> lastUpdateId st
      \<longrightarrow> replayLoop (ev # evs) st = replayLoop evs st)
   \<and> (l \<noteq> 0 \<and> \<not> fst (replayBuffer (commitSnapshot l bs as st))
      \<longrightarrow> \<not> isSynced (initSnapshot_resume (Response 200 (JsonObj
                \<lparr>p_lastUpdateId = Some l, p_bids = Some bs, p_asks = Some as\<rparr>)) st)
        \<and> needsResync (initSnapshot_resume (Response 200 (JsonObj
                \<lparr>p_lastUpdateId = Some l, p_bids = Some bs, p_asks = Some as\<rparr>)) st)
        \<and> buffer (initSnapshot_resume (Response 200 (JsonObj
                \<lparr>p_lastUpdateId = Some l, p_bids = Some bs, p_asks = Some as\<rparr>)) st) = []
        \<and> retryTimeoutId (initSnapshot_resume (Response 200 (JsonObj
                \<lparr>p_lastUpdateId = Some l, p_bids = Some bs, p_asks = Some as\<rparr>)) st) \<noteq> None)"
proof -
  have a: "buffer st \<noteq> [] \<and> findStart (lastUpdateId st) (sort_key ev_u (buffer st)) 0 = Some i
      \<longrightarrow> i < length (buffer st)
        \<and> ev_U (sort_key ev_u (buffer st) ! i) \<le> lastUpdateId st + 1
        \<and> lastUpdateId st + 1 \<le> ev_u (sort_key ev_u (buffer st) ! i)
        \<and> replayBuffer st
            = replayLoop (drop i (sort_key ev_u (buffer st)))
                (st\<lparr>buffer := sort_key ev_u (buffer st)\<rparr>)"
  proof
    assume h: "buffer st \<noteq> [] \<and> findStart (lastUpdateId st) (sort_key ev_u (buffer st)) 0 = Some i"
    from findStart_Some[of "lastUpdateId st" "sort_key ev_u (buffer st)" 0 i] h
    have "i < length (buffer st) \<and> ev_U (sort_key ev_u (buffer st) ! i) \<le> lastUpdateId st + 1
        \<and> lastUpdateId st + 1 \<le> ev_u (sort_key ev_u (buffer st) ! i)" by simp
    moreover from h have "replayBuffer st
            = replayLoop (drop i (sort_key ev_u (buffer st)))
                (st\<lparr>buffer := sort_key ev_u (buffer st)\<rparr>)"
      by (simp add: replayBuffer_def)
    ultimately show "i < length (buffer st)
        \<and> ev_U (sort_key ev_u (buffer st) ! i) \<le> lastUpdateId st + 1
        \<and> lastUpdateId st + 1 \<le> ev_u (sort_key ev_u (buffer st) ! i)
        \<and> replayBuffer st
            = replayLoop (drop i (sort_key ev_u (buffer st)))
                (st\<lparr>buffer := sort_key ev_u (buffer st)\<rparr>)" by simp
  qed
  have e: "l \<noteq> 0 \<and> \<not> fst (replayBuffer (commitSnapshot l bs as st))
      \<longrightarrow> \<not> isSynced (initSnapshot_resume (Response 200 (JsonObj
                \<lparr>p_lastUpdateId = Some l, p_bids = Some bs, p_asks = Some as\<rparr>)) st)
        \<and> needsResync (initSnapshot_resume (Response 200 (JsonObj
                \<lparr>p_lastUpdateId = Some l, p_bids = Some bs, p_asks = Some as\<rparr>)) st)
        \<and> buffer (initSnapshot_resume (Response 200 (JsonObj
                \<lparr>p_lastUpdateId = Some l, p_bids = Some bs, p_asks = Some as\<rparr>)) st) = []
        \<and> retryTimeoutId (initSnapshot_resume (Response 200 (JsonObj
                \<lparr>p_lastUpdateId = Some l, p_bids = Some bs, p_asks = Some as\<rparr>)) st) \<noteq> None"
  proof
    assume h: "l \<noteq> 0 \<and> \<not> fst (replayBuffer (commitSnapshot l bs as st))"
    obtain ok st2 where r: "replayBuffer (commitSnapshot l bs as st) = (ok, st2)"
      by (cases "replayBuffer (commitSnapshot l bs as st)") auto
    with h have ok: "\<not> ok" by simp
    have b: "buffer st2 = []" using replayBuffer_buffer[of "commitSnapshot l bs as st"] r by simp
    from h ok r b
    show "\<not> isSynced (initSnapshot_resume (Response 200 (JsonObj
                \<lparr>p_lastUpdateId = Some l, p_bids = Some bs, p_asks = Some as\<rparr>)) st)
        \<and> needsResync (initSnapshot_resume (Response 200 (JsonObj
                \<lparr>p_lastUpdateId = Some l, p_bids = Some bs, p_asks = Some as\<rparr>)) st)
        \<and> buffer (initSnapshot_resume (Response 200 (JsonObj
                \<lparr>p_lastUpdateId = Some l, p_bids = Some bs, p_asks = Some as\<rparr>)) st) = []
        \<and> retryTimeoutId (initSnapshot_resume (Response 200 (JsonObj
                \<lparr>p_lastUpdateId = Some l, p_bids = Some bs, p_asks = Some as\<rparr>)) st) \<noteq> None"
      by (simp add: initSnapshot_resume_def response_ok_def scheduleRetry_def)
  qed
  from a e show ?thesis by simp
qed

theorem replay_continuity_witness:
  "replayBuffer gapCommitted = replayLoop [diff501, gapDiff503] gapCommitted
   \<and> replayLoop [diff501, gapDiff503] gapCommitted
       = replayLoop [gapDiff503] (applyEvent diff501 gapCommitted)
   \<and> replayLoop [gapDiff503] (applyEvent diff501 gapCommitted)
       = (False, (applyEvent diff501 gapCommitted)\<lparr>buffer := []\<rparr>)
   \<and> replayLoop [dupDiffB] (applyEvent dupDiffA dupCommitted)
       = replayLoop [] (applyEvent dupDiffA dupCommitted)
   \<and> \<not> isSynced (initSnapshot_resume snap500 gapBuffered)
   \<and> needsResync (initSnapshot_resume snap500 gapBuffered)
   \<and> buffer (initSnapshot_resume snap500 gapBuffered) = []
   \<and> retryTimeoutId (initSnapshot_resume snap500 gapBuffered) \<noteq> None"
proof -
  have b: "buffer gapCommitted = [diff501, gapDiff503]" "lastUpdateId gapCommitted = 500"
    by (simp_all add: gapCommitted_eq)
  have f: "findStart 500 [diff501, gapDiff503] 0 = Some 0"
    by (simp add: diff501_def)
  have s: "gapCommitted\<lparr>buffer := [diff501, gapDiff503]\<rparr> = gapCommitted"
    by (simp add: gapCommitted_eq)
  have u1: "ev_U diff501 \<le> lastUpdateId gapCommitted + 1 \<and> ev_u diff501 > lastUpdateId gapCommitted"
    by (simp add: b diff501_def)
  have l1: "lastUpdateId (applyEvent diff501 gapCommitted) = 501"
    by (simp add: applyEvent_def diff501_def)
  have l2: "lastUpdateId (applyEvent dupDiffA dupCommitted) = 501"
    by (simp add: applyEvent_def dupDiffA_def)
  have u2: "ev_U gapDiff503 > lastUpdateId (applyEvent diff501 gapCommitted) + 1"
    by (simp add: l1 gapDiff503_def)
  have u3: "ev_U dupDiffB \<le> lastUpdateId (applyEvent dupDiffA dupCommitted) + 1
      \<and> ev_u dupDiffB \<le> lastUpdateId (applyEvent dupDiffA dupCommitted)"
    by (simp add: l2 dupDiffB_def)
  note t1 = replay_continuity[of gapCommitted 0 diff501 "[gapDiff503]" 500
      "[(''10'', ''1'')]" "[(''11'', ''1'')]"]
  note t2 = replay_continuity[of "applyEvent diff501 gapCommitted" 0 gapDiff503 "[]"]
  note t3 = replay_continuity[of "applyEvent dupDiffA dupCommitted" 0 dupDiffB "[]"]
  note t4 = replay_continuity[of gapBuffered 0 diff501 "[]" 500
      "[(''10'', ''1'')]" "[(''11'', ''1'')]"]
  have h1: "buffer gapCommitted \<noteq> []
      \<and> findStart (lastUpdateId gapCommitted) (sort_key ev_u (buffer gapCommitted)) 0 = Some 0"
    unfolding b gap_sorted using f by simp
  from t1 h1 have "replayBuffer gapCommitted
      = replayLoop (drop 0 (sort_key ev_u (buffer gapCommitted)))
          (gapCommitted\<lparr>buffer := sort_key ev_u (buffer gapCommitted)\<rparr>)"
    by blast
  then have c1: "replayBuffer gapCommitted = replayLoop [diff501, gapDiff503] gapCommitted"
    unfolding b gap_sorted s by simp
  have c2: "replayLoop [diff501, gapDiff503] gapCommitted
       = replayLoop [gapDiff503] (applyEvent diff501 gapCommitted)"
    using t1 u1 by blast
  have c3: "replayLoop [gapDiff503] (applyEvent diff501 gapCommitted)
       = (False, (applyEvent diff501 gapCommitted)\<lparr>buffer := []\<rparr>)"
    using t2 u2 by blast
  have c4: "replayLoop [dupDiffB] (applyEvent dupDiffA dupCommitted)
       = replayLoop [] (applyEvent dupDiffA dupCommitted)"
    using t3 u3 by blast
  have nf: "\<not> fst (replayBuffer (commitSnapshot 500 [(''10'', ''1'')] [(''11'', ''1'')] gapBuffered))"
    using c1 c2 c3 by (simp add: gapCommitted_def)
  have c5: "\<not> isSynced (initSnapshot_resume snap500 gapBuffered)
   \<and> needsResync (initSnapshot_resume snap500 gapBuffered)
   \<and> buffer (initSnapshot_resume snap500 gapBuffered) = []
   \<and> retryTimeoutId (initSnapshot_resume snap500 gapBuffered) \<noteq> None"
    using t4 nf by (simp add: snap500_def)
  from c1 c2 c3 c4 c5 show ?thesis by blast
qed

text \<open>
  C1 as stated fails for the second condition: with two buffered diffs of final update id
  501, the second is reached with \<open>e.u = lastUpdateId\<close>; it is passed over and the replay
  succeeds, so the engine ends synced with no retry scheduled.
\<close>

theorem replay_skip_counterexample:
  "ev_U dupDiffB \<le> lastUpdateId (applyEvent dupDiffA dupCommitted) + 1
   \<and> \<not> ev_u dupDiffB > lastUpdateId (applyEvent dupDiffA dupCommitted)
   \<and> replayBuffer dupCommitted
       = (True, (applyEvent dupDiffA dupCommitted)\<lparr>buffer := []\<rparr>)
   \<and> isSynced (run dupHistory (newEngine ''BTCUSDT''))
   \<and> \<not> needsResync (run dupHistory (newEngine ''BTCUSDT''))
   \<and> retryTimeoutId (run dupHistory (newEngine ''BTCUSDT'')) = None
   \<and> lastUpdateId (run dupHistory (newEngine ''BTCUSDT'')) = 501
   \<and> bids (run dupHistory (newEngine ''BTCUSDT'')) = [(''10'', 2)]"
  by (simp add: dupCommitted_eq dupHistory_def snap500_def dupDiffA_def dupDiffB_def engine_defs)


section \<open>Zero quantities\<close>

text \<open>Applying a diff never stores a zero quantity.\<close>

lemma update_values: "snd ` set (AList.update k v al) \<subseteq> insert v (snd ` set al)"
  by (induction al) auto

lemma delete_values: "snd ` set (AList.delete k al) \<subseteq> snd ` set al"
  by (auto simp: AList.delete_eq)

lemma applyLevels_no_zero: "0 \<notin> snd ` set book \<Longrightarrow> 0 \<notin> snd ` set (applyLevels ls book)"
proof (induction ls arbitrary: book)
  case Nil
  then show ?case by simp
next
  case (Cons lv ls)
  obtain p q where lv: "lv = (p, q)" by (cases lv) auto
  show ?case
  proof (cases "parseFloat q = 0")
    case True
    have "snd ` set (AList.delete p book) \<subseteq> snd ` set book" by (rule delete_values)
    with Cons.prems have "0 \<notin> snd ` set (AList.delete p book)" by (rule contra_subsetD[rotated])
    then have "0 \<notin> snd ` set (applyLevels ls (AList.delete p book))" by (rule Cons.IH)
    with True lv show ?thesis by simp
  next
    case False
    have "snd ` set (AList.update p (parseFloat q) book) \<subseteq> insert (parseFloat q) (snd ` set book)"
      by (rule update_values)
    moreover have "0 \<notin> insert (parseFloat q) (snd ` set book)"
      using Cons.prems False by simp
    ultimately have "0 \<notin> snd ` set (AList.update p (parseFloat q) book)"
      by (rule contra_subsetD)
    then have "0 \<notin> snd ` set (applyLevels ls (AList.update p (parseFloat q) book))"
      by (rule Cons.IH)
    with False lv show ?thesis by simp
  qed
qed

text \<open>
  C4 on the snapshot path. A snapshot with the level \<open>["10", "0"]\<close> leaves the synced
  engine with the entry \<open>"10" \<mapsto> 0\<close> in the bids map, while \<open>applyUpdate\<close> with the
  same level deletes the price.
\<close>

theorem snapshot_zero_level_stored:
  "isSynced (run [InitSnapshot 0, FetchDone snapZero] (newEngine ''BTCUSDT''))
   \<and> bids (run [InitSnapshot 0, FetchDone snapZero] (newEngine ''BTCUSDT'')) = [(''10'', 0)]
   \<and> map_of (bids (run [InitSnapshot 0, FetchDone snapZero] (newEngine ''BTCUSDT''))) ''10''
       = Some 0
   \<and> applyUpdate (Some [(''10'', ''0'')]) [(''10'', 1)] = []"
  by (simp add: snapZero_def engine_defs)


section \<open>Degraded seeding\<close>

text \<open>
  C10. An unsynced engine that is not degraded and has no resync in flight, given a diff
  with arrays \<open>b\<close> and \<open>a\<close>, takes \<open>lastUpdateId\<close> from \<open>e.u\<close>, applies the diff to its
  book, and sets \<open>degraded\<close> and \<open>isSynced\<close> while \<open>needsResync\<close> stays true, so
  \<open>getIsSynced\<close> returns true. A new engine is in that state, and after the single diff
  \<open>seedDiff\<close>, with no snapshot, the book validity gate of the hook holds.
\<close>

theorem degraded_seeding:
  "(\<not> isSynced st \<and> \<not> resyncInFlight st \<and> \<not> degraded st
      \<and> ev_b ev \<noteq> None \<and> ev_a ev \<noteq> None
     \<longrightarrow> lastUpdateId (processEvent ev st) = ev_u ev
       \<and> bids (processEvent ev st) = applyUpdate (ev_b ev) (bids st)
       \<and> asks (processEvent ev st) = applyUpdate (ev_a ev) (asks st)
       \<and> buffer (processEvent ev st) = buffer st
       \<and> degraded (processEvent ev st) \<and> isSynced (processEvent ev st)
       \<and> needsResync (processEvent ev st) \<and> getIsSynced (processEvent ev st))
   \<and> \<not> isSynced (newEngine name) \<and> \<not> resyncInFlight (newEngine name)
   \<and> \<not> degraded (newEngine name)
   \<and> bookIsValid (processEvent seedDiff (newEngine ''BTCUSDT''))"
proof -
  have v: "bookIsValid (processEvent seedDiff (newEngine ''BTCUSDT''))"
    by (simp add: bookIsValid_def getBook_def sortBook_def bestPrice_def getIsSynced_def
        getResyncInFlight_def seedDiff_def engine_defs)
  show ?thesis using v
    by (simp add: processEvent_def getIsSynced_def newEngine_def)
qed

theorem degraded_seeding_witness:
  "lastUpdateId (processEvent seedDiff (newEngine ''BTCUSDT'')) = 705
   \<and> bids (processEvent seedDiff (newEngine ''BTCUSDT'')) = [(''10'', 1)]
   \<and> asks (processEvent seedDiff (newEngine ''BTCUSDT'')) = [(''11'', 2)]
   \<and> degraded (processEvent seedDiff (newEngine ''BTCUSDT''))
   \<and> isSynced (processEvent seedDiff (newEngine ''BTCUSDT''))
   \<and> needsResync (processEvent seedDiff (newEngine ''BTCUSDT''))"
proof -
  have h: "\<not> isSynced (newEngine ''BTCUSDT'') \<and> \<not> resyncInFlight (newEngine ''BTCUSDT'')
      \<and> \<not> degraded (newEngine ''BTCUSDT'') \<and> ev_b seedDiff \<noteq> None \<and> ev_a seedDiff \<noteq> None"
    by (simp add: newEngine_def seedDiff_def)
  have a: "applyUpdate (ev_b seedDiff) (bids (newEngine ''BTCUSDT'')) = [(''10'', 1)]"
    "applyUpdate (ev_a seedDiff) (asks (newEngine ''BTCUSDT'')) = [(''11'', 2)]"
    "ev_u seedDiff = 705"
    by (simp_all add: seedDiff_def engine_defs)
  from degraded_seeding[of "newEngine ''BTCUSDT''" seedDiff "''BTCUSDT''"] h a
  show ?thesis by simp
qed



section \<open>The snapshot fetcher on failures\<close>

lemma servedOnce_eq:
  "servedOnce =
     \<lparr>depthCache = [''BTCUSDT'' \<mapsto> \<lparr>dc_lastUpdateId = 100,
          dc_bids = [(''10'', ''1''), (''9'', ''4'')], dc_asks = [(''11'', ''1'')],
          cachedAt = 1000\<rparr>],
      rateLimitState = [''BTCUSDT'' \<mapsto> \<lparr>lastRequest = 1000, backoffMs = 2000\<rparr>],
      wsClients = [], clientSymbols = Map.empty\<rparr>"
  by (simp add: servedOnce_def snapTwo_def server_defs)

text \<open>
  C7, as amended. Whenever \<open>fetchBinanceDepth\<close> fails (a non-success status, a payload
  that does not parse or lacks \<open>lastUpdateId\<close> or an array, or a network error) it
  returns \<open>null\<close> and leaves the depth cache as it was. Only on HTTP 429 or 418 does the
  symbol's \<open>backoffMs\<close> double, capped at 30000; on every other failure the server state,
  and with it the rate-limit record, is unchanged.
\<close>

theorem fetch_failure:
  "(fetchFails outcome \<longrightarrow>
      fst (fetchBinanceDepth sy limit outcome now srv) = None
      \<and> depthCache (snd (fetchBinanceDepth sy limit outcome now srv)) = depthCache srv)
   \<and> (fetchFails outcome \<and> \<not> isRateLimited outcome \<longrightarrow>
      snd (fetchBinanceDepth sy limit outcome now srv) = srv)
   \<and> (isRateLimited outcome \<longrightarrow>
      fst (fetchBinanceDepth sy limit outcome now srv) = None
      \<and> rateLimitState (snd (fetchBinanceDepth sy limit outcome now srv))
          = (rateLimitState srv)(sy \<mapsto>
              (rateLimitOrDefault srv sy)\<lparr>backoffMs :=
                 min (backoffMs (rateLimitOrDefault srv sy) * 2) 30000\<rparr>))"
proof (cases outcome)
  case NetworkError
  then show ?thesis by (simp add: fetchBinanceDepth_def)
next
  case (Response status bdy)
  then show ?thesis
    by (auto simp: fetchBinanceDepth_def response_ok_def Let_def MAX_BACKOFF_MS_def)
qed

theorem fetch_failure_witness:
  "fst (fetchBinanceDepth ''BTCUSDT'' 1000 (Response 500 NotJson) 2000 servedOnce) = None
   \<and> snd (fetchBinanceDepth ''BTCUSDT'' 1000 (Response 500 NotJson) 2000 servedOnce) = servedOnce
   \<and> snd (fetchBinanceDepth ''BTCUSDT'' 1000 noArrays 2000 servedOnce) = servedOnce
   \<and> snd (fetchBinanceDepth ''BTCUSDT'' 1000 NetworkError 2000 servedOnce) = servedOnce
   \<and> rateLimitState (snd (fetchBinanceDepth ''BTCUSDT'' 1000 rateLimited 2000 servedOnce))
        ''BTCUSDT'' = Some \<lparr>lastRequest = 1000, backoffMs = 4000\<rparr>"
proof -
  have f: "fetchFails (Response 500 NotJson) \<and> \<not> isRateLimited (Response 500 NotJson)"
    "fetchFails noArrays \<and> \<not> isRateLimited noArrays"
    "fetchFails NetworkError \<and> \<not> isRateLimited NetworkError"
    "isRateLimited rateLimited"
    by (simp_all add: response_ok_def noArrays_def rateLimited_def)
  have d: "rateLimitOrDefault servedOnce ''BTCUSDT'' = \<lparr>lastRequest = 1000, backoffMs = 2000\<rparr>"
    by (simp add: servedOnce_eq rateLimitOrDefault_def)
  note t1 = fetch_failure[of "Response 500 NotJson" "''BTCUSDT''" 1000 2000 servedOnce]
  note t2 = fetch_failure[of noArrays "''BTCUSDT''" 1000 2000 servedOnce]
  note t3 = fetch_failure[of NetworkError "''BTCUSDT''" 1000 2000 servedOnce]
  note t4 = fetch_failure[of rateLimited "''BTCUSDT''" 1000 2000 servedOnce]
  have c1: "fst (fetchBinanceDepth ''BTCUSDT'' 1000 (Response 500 NotJson) 2000 servedOnce) = None"
    "snd (fetchBinanceDepth ''BTCUSDT'' 1000 (Response 500 NotJson) 2000 servedOnce) = servedOnce"
    using t1 f(1) by blast+
  have c2: "snd (fetchBinanceDepth ''BTCUSDT'' 1000 noArrays 2000 servedOnce) = servedOnce"
    using t2 f(2) by blast
  have c3: "snd (fetchBinanceDepth ''BTCUSDT'' 1000 NetworkError 2000 servedOnce) = servedOnce"
    using t3 f(3) by blast
  have "rateLimitState (snd (fetchBinanceDepth ''BTCUSDT'' 1000 rateLimited 2000 servedOnce))
      = (rateLimitState servedOnce)(''BTCUSDT'' \<mapsto>
              (rateLimitOrDefault servedOnce ''BTCUSDT'')\<lparr>backoffMs :=
                 min (backoffMs (rateLimitOrDefault servedOnce ''BTCUSDT'') * 2) 30000\<rparr>)"
    using t4 f(4) by blast
  then have c4: "rateLimitState (snd (fetchBinanceDepth ''BTCUSDT'' 1000 rateLimited 2000 servedOnce))
        ''BTCUSDT'' = Some \<lparr>lastRequest = 1000, backoffMs = 4000\<rparr>"
    by (simp add: d)
  from c1 c2 c3 c4 show ?thesis by simp
qed

text \<open>
  C7 as stated fails: with a record of backoff 2000 for the symbol, an HTTP 500, a payload
  without arrays and a network error all leave the backoff at 2000, where an HTTP 429
  doubles it to 4000.
\<close>

theorem error_backoff_counterexample:
  "fst (fetchBinanceDepth ''BTCUSDT'' 1000 (Response 500 NotJson) 2000 servedOnce) = None
   \<and> rateLimitState servedOnce ''BTCUSDT'' = Some \<lparr>lastRequest = 1000, backoffMs = 2000\<rparr>
   \<and> rateLimitState (snd (fetchBinanceDepth ''BTCUSDT'' 1000 (Response 500 NotJson) 2000 servedOnce))
        ''BTCUSDT'' = Some \<lparr>lastRequest = 1000, backoffMs = 2000\<rparr>
   \<and> rateLimitState (snd (fetchBinanceDepth ''BTCUSDT'' 1000 noArrays 2000 servedOnce))
        ''BTCUSDT'' = Some \<lparr>lastRequest = 1000, backoffMs = 2000\<rparr>
   \<and> rateLimitState (snd (fetchBinanceDepth ''BTCUSDT'' 1000 NetworkError 2000 servedOnce))
        ''BTCUSDT'' = Some \<lparr>lastRequest = 1000, backoffMs = 2000\<rparr>
   \<and> rateLimitState (snd (fetchBinanceDepth ''BTCUSDT'' 1000 rateLimited 2000 servedOnce))
        ''BTCUSDT'' = Some \<lparr>lastRequest = 1000, backoffMs = 4000\<rparr>"
  by (simp add: servedOnce_eq noArrays_def rateLimited_def fetchBinanceDepth_def
      rateLimitOrDefault_def response_ok_def MAX_BACKOFF_MS_def)


section \<open>The depth endpoint with limit=0\<close>

lemma requestLimit_zero: "requestLimit (Some 0) = 1000"
  by (simp add: requestLimit_def)

lemma requestLimit_none: "requestLimit None = 1000"
  by (simp add: requestLimit_def)

lemma depthHandler_unfold:
  "depthHandler rawSymbol parsedLimit now outcome fetchNow srv =
     (case throttledCache (toUpperCase rawSymbol) now srv of
        Some c \<Rightarrow> (Json200 (depthBody c (requestLimit parsedLimit) ''cache''), srv)
      | None \<Rightarrow>
          (case fetchBinanceDepth (toUpperCase rawSymbol) (requestLimit parsedLimit) outcome
                  fetchNow srv of
             (Some freshData, srv') \<Rightarrow>
               (Json200 (depthBody freshData (requestLimit parsedLimit) ''binance''), srv')
           | (None, srv') \<Rightarrow>
               (case depthCache srv (toUpperCase rawSymbol) of
                  Some c \<Rightarrow> (Json200 (depthBody c (requestLimit parsedLimit) ''cache''), srv')
                | None \<Rightarrow>
                    (Json503 (toUpperCase rawSymbol)
                       (case rateLimitState srv (toUpperCase rawSymbol) of
                          None \<Rightarrow> MIN_BACKOFF_MS
                        | Some _ \<Rightarrow> backoffMs (rateLimitOrDefault srv' (toUpperCase rawSymbol))),
                     srv'))))"
  by (simp add: depthHandler_def throttledCache_def Let_def)

lemma throttledCache_cached:
  "throttledCache sy now srv = Some c \<Longrightarrow> depthCache srv sy = Some c"
  by (auto simp: throttledCache_def Let_def split: if_splits option.splits)

lemma depthBody_default:
  "depthBody c 1000 src =
     \<lparr>r_lastUpdateId = dc_lastUpdateId c, r_bids = take 1000 (dc_bids c),
      r_asks = take 1000 (dc_asks c), r_cachedAt = cachedAt c, r_source = src\<rparr>"
  by (simp add: depthBody_def slice0_def)

lemma fetch_success:
  "response_ok status \<Longrightarrow> validData bdy = Some (l, bs, as) \<Longrightarrow>
     fst (fetchBinanceDepth sy limit (Response status bdy) now srv)
       = Some \<lparr>dc_lastUpdateId = l, dc_bids = bs, dc_asks = as, cachedAt = now\<rparr>"
  by (simp add: fetchBinanceDepth_def Let_def)

lemma fetch_fails_None:
  "fetchFails outcome \<Longrightarrow> fst (fetchBinanceDepth sy limit outcome now srv) = None"
  by (cases outcome) (auto simp: fetchBinanceDepth_def Let_def)

lemma throttled_servedOnce:
  "throttledCache ''BTCUSDT'' 1100 servedOnce
     = Some \<lparr>dc_lastUpdateId = 100, dc_bids = [(''10'', ''1''), (''9'', ''4'')],
         dc_asks = [(''11'', ''1'')], cachedAt = 1000\<rparr>"
  "throttledCache ''BTCUSDT'' 20000 servedOnce = None"
  "throttledCache ''BTCUSDT'' 5000 initialServer = None"
  "depthCache servedOnce ''BTCUSDT''
     = Some \<lparr>dc_lastUpdateId = 100, dc_bids = [(''10'', ''1''), (''9'', ''4'')],
         dc_asks = [(''11'', ''1'')], cachedAt = 1000\<rparr>"
  "depthCache initialServer ''BTCUSDT'' = None"
  by (simp_all add: throttledCache_def servedOnce_eq rateLimitOrDefault_def initialServer_def
      RATE_LIMIT_INTERVAL_MS_def CACHE_TTL_MS_def MIN_BACKOFF_MS_def)

lemma upper_BTCUSDT: "toUpperCase ''BTCUSDT'' = ''BTCUSDT''"
  by (simp add: toUpperCase_def)

text \<open>
  C8, as amended. A request with \<open>limit=0\<close> is served exactly like a request without a
  limit, that is with the default of 1000, and it is answered with a depth whenever a
  snapshot is cached or can be fetched: with the cached snapshot, and no fetch, when the
  request is throttled and the cache is younger than twice the TTL; otherwise with the
  fetched snapshot when the fetch succeeds; otherwise with the cached snapshot when there
  is one. The response carries that snapshot's update id and the first 1000 of its bids
  and of its asks. Only when the fetch fails and nothing is cached is the answer a 503.
\<close>

theorem limit_zero_is_default:
  "depthHandler rawSymbol (Some 0) now outcome fetchNow srv
     = depthHandler rawSymbol None now outcome fetchNow srv
   \<and> (throttledCache (toUpperCase rawSymbol) now srv = Some c \<longrightarrow>
        depthCache srv (toUpperCase rawSymbol) = Some c
        \<and> depthHandler rawSymbol (Some 0) now outcome fetchNow srv
           = (Json200 \<lparr>r_lastUpdateId = dc_lastUpdateId c, r_bids = take 1000 (dc_bids c),
                 r_asks = take 1000 (dc_asks c), r_cachedAt = cachedAt c,
                 r_source = ''cache''\<rparr>, srv))
   \<and> (throttledCache (toUpperCase rawSymbol) now srv = None
        \<and> response_ok status \<and> validData bdy = Some (l, bs, as) \<longrightarrow>
        fst (depthHandler rawSymbol (Some 0) now (Response status bdy) fetchNow srv)
          = Json200 \<lparr>r_lastUpdateId = l, r_bids = take 1000 bs, r_asks = take 1000 as,
                r_cachedAt = fetchNow, r_source = ''binance''\<rparr>)
   \<and> (throttledCache (toUpperCase rawSymbol) now srv = None \<and> fetchFails outcome
        \<and> depthCache srv (toUpperCase rawSymbol) = Some c \<longrightarrow>
        fst (depthHandler rawSymbol (Some 0) now outcome fetchNow srv)
          = Json200 \<lparr>r_lastUpdateId = dc_lastUpdateId c, r_bids = take 1000 (dc_bids c),
                r_asks = take 1000 (dc_asks c), r_cachedAt = cachedAt c,
                r_source = ''cache''\<rparr>)
   \<and> (fetchFails outcome \<and> depthCache srv (toUpperCase rawSymbol) = None \<longrightarrow>
        (\<exists>retryAfter. fst (depthHandler rawSymbol (Some 0) now outcome fetchNow srv)
           = Json503 (toUpperCase rawSymbol) retryAfter))"
proof -
  let ?sy = "toUpperCase rawSymbol"
  have z: "requestLimit (Some 0) = 1000" by (rule requestLimit_zero)
  have c1: "depthHandler rawSymbol (Some 0) now outcome fetchNow srv
     = depthHandler rawSymbol None now outcome fetchNow srv"
    by (simp add: depthHandler_def requestLimit_zero requestLimit_none)
  have c2: "throttledCache ?sy now srv = Some c \<longrightarrow>
        depthCache srv ?sy = Some c
        \<and> depthHandler rawSymbol (Some 0) now outcome fetchNow srv
           = (Json200 \<lparr>r_lastUpdateId = dc_lastUpdateId c, r_bids = take 1000 (dc_bids c),
                 r_asks = take 1000 (dc_asks c), r_cachedAt = cachedAt c,
                 r_source = ''cache''\<rparr>, srv)"
    by (simp add: depthHandler_unfold z depthBody_default throttledCache_cached)
  have c3: "throttledCache ?sy now srv = None
        \<and> response_ok status \<and> validData bdy = Some (l, bs, as) \<longrightarrow>
        fst (depthHandler rawSymbol (Some 0) now (Response status bdy) fetchNow srv)
          = Json200 \<lparr>r_lastUpdateId = l, r_bids = take 1000 bs, r_asks = take 1000 as,
                r_cachedAt = fetchNow, r_source = ''binance''\<rparr>"
  proof
    assume h: "throttledCache ?sy now srv = None
        \<and> response_ok status \<and> validData bdy = Some (l, bs, as)"
    obtain res srv' where f: "fetchBinanceDepth ?sy 1000 (Response status bdy) fetchNow srv = (res, srv')"
      by (cases "fetchBinanceDepth ?sy 1000 (Response status bdy) fetchNow srv") auto
    from h fetch_success[of status bdy l bs as ?sy 1000 fetchNow srv] f
    have "res = Some \<lparr>dc_lastUpdateId = l, dc_bids = bs, dc_asks = as, cachedAt = fetchNow\<rparr>"
      by simp
    with h f show "fst (depthHandler rawSymbol (Some 0) now (Response status bdy) fetchNow srv)
          = Json200 \<lparr>r_lastUpdateId = l, r_bids = take 1000 bs, r_asks = take 1000 as,
                r_cachedAt = fetchNow, r_source = ''binance''\<rparr>"
      by (simp add: depthHandler_unfold z depthBody_default)
  qed
  have c4: "throttledCache ?sy now srv = None \<and> fetchFails outcome
        \<and> depthCache srv ?sy = Some c \<longrightarrow>
        fst (depthHandler rawSymbol (Some 0) now outcome fetchNow srv)
          = Json200 \<lparr>r_lastUpdateId = dc_lastUpdateId c, r_bids = take 1000 (dc_bids c),
                r_asks = take 1000 (dc_asks c), r_cachedAt = cachedAt c,
                r_source = ''cache''\<rparr>"
  proof
    assume h: "throttledCache ?sy now srv = None \<and> fetchFails outcome
        \<and> depthCache srv ?sy = Some c"
    obtain res srv' where f: "fetchBinanceDepth ?sy 1000 outcome fetchNow srv = (res, srv')"
      by (cases "fetchBinanceDepth ?sy 1000 outcome fetchNow srv") auto
    from h fetch_fails_None[of outcome ?sy 1000 fetchNow srv] f have "res = None" by simp
    with h f show "fst (depthHandler rawSymbol (Some 0) now outcome fetchNow srv)
          = Json200 \<lparr>r_lastUpdateId = dc_lastUpdateId c, r_bids = take 1000 (dc_bids c),
                r_asks = take 1000 (dc_asks c), r_cachedAt = cachedAt c,
                r_source = ''cache''\<rparr>"
      by (simp add: depthHandler_unfold z depthBody_default)
  qed
  have c5: "fetchFails outcome \<and> depthCache srv ?sy = None \<longrightarrow>
        (\<exists>retryAfter. fst (depthHandler rawSymbol (Some 0) now outcome fetchNow srv)
           = Json503 ?sy retryAfter)"
  proof
    assume h: "fetchFails outcome \<and> depthCache srv ?sy = None"
    obtain res srv' where f: "fetchBinanceDepth ?sy 1000 outcome fetchNow srv = (res, srv')"
      by (cases "fetchBinanceDepth ?sy 1000 outcome fetchNow srv") auto
    from h fetch_fails_None[of outcome ?sy 1000 fetchNow srv] f have r: "res = None" by simp
    have t: "throttledCache ?sy now srv = None"
    proof (cases "throttledCache ?sy now srv")
      case None then show ?thesis .
    next
      case (Some d)
      from throttledCache_cached[OF Some] h show ?thesis by simp
    qed
    from h f r t show "\<exists>retryAfter. fst (depthHandler rawSymbol (Some 0) now outcome fetchNow srv)
           = Json503 ?sy retryAfter"
      by (simp add: depthHandler_unfold z)
  qed
  from c1 c2 c3 c4 c5 show ?thesis by blast
qed

theorem limit_zero_is_default_witness:
  "fst (depthHandler ''BTCUSDT'' (Some 0) 1100 NetworkError 1100 servedOnce)
     = Json200 \<lparr>r_lastUpdateId = 100, r_bids = [(''10'', ''1''), (''9'', ''4'')],
         r_asks = [(''11'', ''1'')], r_cachedAt = 1000, r_source = ''cache''\<rparr>
   \<and> fst (depthHandler ''BTCUSDT'' (Some 0) 5000 snapTwo 5000 initialServer)
     = Json200 \<lparr>r_lastUpdateId = 100, r_bids = [(''10'', ''1''), (''9'', ''4'')],
         r_asks = [(''11'', ''1'')], r_cachedAt = 5000, r_source = ''binance''\<rparr>
   \<and> fst (depthHandler ''BTCUSDT'' (Some 0) 20000 NetworkError 20000 servedOnce)
     = Json200 \<lparr>r_lastUpdateId = 100, r_bids = [(''10'', ''1''), (''9'', ''4'')],
         r_asks = [(''11'', ''1'')], r_cachedAt = 1000, r_source = ''cache''\<rparr>
   \<and> (\<exists>retryAfter. fst (depthHandler ''BTCUSDT'' (Some 0) 5000 NetworkError 5000 initialServer)
         = Json503 ''BTCUSDT'' retryAfter)
   \<and> depthHandler ''BTCUSDT'' (Some 0) 5000 snapTwo 5000 initialServer
       = depthHandler ''BTCUSDT'' None 5000 snapTwo 5000 initialServer"
proof -
  let ?c = "\<lparr>dc_lastUpdateId = 100, dc_bids = [(''10'', ''1''), (''9'', ''4'')],
         dc_asks = [(''11'', ''1'')], cachedAt = 1000\<rparr>"
  let ?b = "JsonObj \<lparr>p_lastUpdateId = Some 100,
      p_bids = Some [(''10'', ''1''), (''9'', ''4'')], p_asks = Some [(''11'', ''1'')]\<rparr>"
  have v: "response_ok 200"
    "validData ?b = Some (100, [(''10'', ''1''), (''9'', ''4'')], [(''11'', ''1'')])"
    "fetchFails NetworkError"
    by (simp_all add: response_ok_def)
  note t1 = limit_zero_is_default[of "''BTCUSDT''" 1100 NetworkError 1100 servedOnce ?c]
  note t2 = limit_zero_is_default[of "''BTCUSDT''" 5000 snapTwo 5000 initialServer ?c 200 ?b
      100 "[(''10'', ''1''), (''9'', ''4'')]" "[(''11'', ''1'')]"]
  note t3 = limit_zero_is_default[of "''BTCUSDT''" 20000 NetworkError 20000 servedOnce ?c]
  note t4 = limit_zero_is_default[of "''BTCUSDT''" 5000 NetworkError 5000 initialServer ?c]
  have a1: "depthHandler ''BTCUSDT'' (Some 0) 1100 NetworkError 1100 servedOnce
     = (Json200 \<lparr>r_lastUpdateId = dc_lastUpdateId ?c, r_bids = take 1000 (dc_bids ?c),
                 r_asks = take 1000 (dc_asks ?c), r_cachedAt = cachedAt ?c,
                 r_source = ''cache''\<rparr>, servedOnce)"
    using t1 throttled_servedOnce(1) unfolding upper_BTCUSDT by blast
  have a2: "fst (depthHandler ''BTCUSDT'' (Some 0) 5000 (Response 200 ?b) 5000 initialServer)
     = Json200 \<lparr>r_lastUpdateId = 100, r_bids = take 1000 [(''10'', ''1''), (''9'', ''4'')],
           r_asks = take 1000 [(''11'', ''1'')], r_cachedAt = 5000, r_source = ''binance''\<rparr>"
    using t2 throttled_servedOnce(3) v(1,2) unfolding upper_BTCUSDT by blast
  have a3: "fst (depthHandler ''BTCUSDT'' (Some 0) 20000 NetworkError 20000 servedOnce)
     = Json200 \<lparr>r_lastUpdateId = dc_lastUpdateId ?c, r_bids = take 1000 (dc_bids ?c),
                 r_asks = take 1000 (dc_asks ?c), r_cachedAt = cachedAt ?c,
                 r_source = ''cache''\<rparr>"
    using t3 throttled_servedOnce(2,4) v(3) unfolding upper_BTCUSDT by blast
  have a4: "\<exists>retryAfter. fst (depthHandler ''BTCUSDT'' (Some 0) 5000 NetworkError 5000 initialServer)
         = Json503 ''BTCUSDT'' retryAfter"
    using t4 throttled_servedOnce(5) v(3) unfolding upper_BTCUSDT by blast
  have a5: "depthHandler ''BTCUSDT'' (Some 0) 5000 snapTwo 5000 initialServer
       = depthHandler ''BTCUSDT'' None 5000 snapTwo 5000 initialServer"
    using limit_zero_is_default[of "''BTCUSDT''" 5000 snapTwo 5000 initialServer] by blast
  from a1 have b1: "fst (depthHandler ''BTCUSDT'' (Some 0) 1100 NetworkError 1100 servedOnce)
     = Json200 \<lparr>r_lastUpdateId = 100, r_bids = [(''10'', ''1''), (''9'', ''4'')],
         r_asks = [(''11'', ''1'')], r_cachedAt = 1000, r_source = ''cache''\<rparr>"
    by simp
  from a2 have b2: "fst (depthHandler ''BTCUSDT'' (Some 0) 5000 snapTwo 5000 initialServer)
     = Json200 \<lparr>r_lastUpdateId = 100, r_bids = [(''10'', ''1''), (''9'', ''4'')],
         r_asks = [(''11'', ''1'')], r_cachedAt = 5000, r_source = ''binance''\<rparr>"
    by (simp add: snapTwo_def)
  from a3 have b3: "fst (depthHandler ''BTCUSDT'' (Some 0) 20000 NetworkError 20000 servedOnce)
     = Json200 \<lparr>r_lastUpdateId = 100, r_bids = [(''10'', ''1''), (''9'', ''4'')],
         r_asks = [(''11'', ''1'')], r_cachedAt = 1000, r_source = ''cache''\<rparr>"
    by simp
  from b1 b2 b3 a4 a5 show ?thesis by blast
qed

text \<open>
  C8 as stated fails: with \<open>limit=0\<close>, both a freshly fetched snapshot and a cached one
  are returned with all their levels.
\<close>

theorem limit_zero_counterexample:
  "fst (depthHandler ''BTCUSDT'' (Some 0) 5000 snapTwo 5000 initialServer)
     = Json200 \<lparr>r_lastUpdateId = 100, r_bids = [(''10'', ''1''), (''9'', ''4'')],
         r_asks = [(''11'', ''1'')], r_cachedAt = 5000, r_source = ''binance''\<rparr>
   \<and> fst (depthHandler ''BTCUSDT'' (Some 0) 1100 NetworkError 1100 servedOnce)
     = Json200 \<lparr>r_lastUpdateId = 100, r_bids = [(''10'', ''1''), (''9'', ''4'')],
         r_asks = [(''11'', ''1'')], r_cachedAt = 1000, r_source = ''cache''\<rparr>"
  by (simp add: servedOnce_eq snapTwo_def server_defs)


section \<open>Per-frame filtering\<close>

text \<open>
  C6, as amended. A frame is sent only to connected clients whose socket is open. For such
  a client, a frame that is not valid JSON is always sent; a frame that parses is sent if
  and only if its \<open>data.s\<close> is a non-empty string in the client's subscribed set. A
  frame that parses but carries no \<open>data.s\<close>, or an empty one, is sent to no client.
\<close>

theorem frame_filtering:
  "(client \<in> set (onBinanceMessage fr srv)
      \<longrightarrow> client \<in> set (wsClients srv) \<and> readyState client = OPEN)
   \<and> (client \<in> set (wsClients srv) \<and> readyState client = OPEN
      \<longrightarrow> client \<in> set (onBinanceMessage Unparseable srv)
        \<and> (client \<in> set (onBinanceMessage (Parsed data_s) srv)
             \<longleftrightarrow> (\<exists>s subs. data_s = Some s \<and> s \<noteq> []
                    \<and> clientSymbols srv (ws_id client) = Some subs \<and> s \<in> subs)))
   \<and> onBinanceMessage (Parsed None) srv = []
   \<and> onBinanceMessage (Parsed (Some [])) srv = []"
proof -
  have a: "client \<in> set (onBinanceMessage fr srv)
      \<longrightarrow> client \<in> set (wsClients srv) \<and> readyState client = OPEN"
    by (auto simp: onBinanceMessage_def forwardsTo_def split: if_splits)
  have b: "client \<in> set (wsClients srv) \<and> readyState client = OPEN
      \<longrightarrow> client \<in> set (onBinanceMessage Unparseable srv)"
    by (simp add: onBinanceMessage_def forwardsTo_def)
  have c: "client \<in> set (wsClients srv) \<and> readyState client = OPEN
      \<longrightarrow> (client \<in> set (onBinanceMessage (Parsed data_s) srv)
             \<longleftrightarrow> (\<exists>s subs. data_s = Some s \<and> s \<noteq> []
                    \<and> clientSymbols srv (ws_id client) = Some subs \<and> s \<in> subs))"
    by (auto simp: onBinanceMessage_def forwardsTo_def split: option.splits)
  have d: "onBinanceMessage (Parsed None) srv = []"
    "onBinanceMessage (Parsed (Some [])) srv = []"
    by (simp_all add: onBinanceMessage_def forwardsTo_def split: option.splits)
  from a b c d show ?thesis by blast
qed

lemma threeClients_simps:
  "wsClients threeClients = [clientA, clientB, clientC]"
  "clientSymbols threeClients (ws_id clientA) = Some {''BTCUSDT''}"
  "clientSymbols threeClients (ws_id clientB) = Some {''ETHUSDT''}"
  "clientSymbols threeClients (ws_id clientC) = Some {''BTCUSDT''}"
  "readyState clientA = OPEN" "readyState clientB = OPEN" "readyState clientC = CLOSING"
  by (simp_all add: threeClients_def clientA_def clientB_def clientC_def initialServer_def)

theorem frame_filtering_witness:
  "clientA \<in> set (wsClients threeClients) \<and> readyState clientA = OPEN
   \<and> clientA \<in> set (onBinanceMessage (Parsed (Some ''BTCUSDT'')) threeClients)
   \<and> clientB \<notin> set (onBinanceMessage (Parsed (Some ''BTCUSDT'')) threeClients)
   \<and> clientC \<notin> set (onBinanceMessage (Parsed (Some ''BTCUSDT'')) threeClients)
   \<and> clientA \<in> set (onBinanceMessage Unparseable threeClients)
   \<and> clientB \<in> set (onBinanceMessage Unparseable threeClients)"
proof -
  have h: "clientA \<in> set (wsClients threeClients) \<and> readyState clientA = OPEN"
    "clientB \<in> set (wsClients threeClients) \<and> readyState clientB = OPEN"
    "readyState clientC \<noteq> OPEN"
    by (simp_all add: threeClients_simps)
  note ta = frame_filtering[of clientA "Parsed (Some ''BTCUSDT'')" threeClients "Some ''BTCUSDT''"]
  note tb = frame_filtering[of clientB "Parsed (Some ''BTCUSDT'')" threeClients "Some ''BTCUSDT''"]
  note tc = frame_filtering[of clientC "Parsed (Some ''BTCUSDT'')" threeClients "Some ''BTCUSDT''"]
  have a: "clientA \<in> set (onBinanceMessage (Parsed (Some ''BTCUSDT'')) threeClients)"
    using ta h(1) by (simp add: threeClients_simps)
  have b: "clientB \<notin> set (onBinanceMessage (Parsed (Some ''BTCUSDT'')) threeClients)"
    using tb h(2) by (simp add: threeClients_simps)
  have c: "clientC \<notin> set (onBinanceMessage (Parsed (Some ''BTCUSDT'')) threeClients)"
    using tc h(3) by blast
  have d: "clientA \<in> set (onBinanceMessage Unparseable threeClients)"
    "clientB \<in> set (onBinanceMessage Unparseable threeClients)"
    using ta tb h by blast+
  from h a b c d show ?thesis by simp
qed

text \<open>
  C6 as stated fails when the symbol cannot be extracted from a frame that is valid JSON:
  the frame is forwarded to no client, where an unparseable frame goes to both open
  clients.
\<close>

theorem frame_without_symbol_counterexample:
  "clientA \<in> set (wsClients threeClients) \<and> readyState clientA = OPEN
   \<and> clientB \<in> set (wsClients threeClients) \<and> readyState clientB = OPEN
   \<and> onBinanceMessage (Parsed None) threeClients = []
   \<and> onBinanceMessage Unparseable threeClients = [clientA, clientB]"
  by (simp add: onBinanceMessage_def forwardsTo_def threeClients_simps)

end
